theory Spec2Isabelle
  imports Complex_Main "HOL-Library.List_Lexorder" "HOL-Library.Char_ord"
begin

section \<open>Python strings\<close>

text \<open>
  A Python \<open>str\<close> is modelled by the list of its UTF-8 bytes, so that every text the
  services handle has a model, the four Chinese persona names included. The string
  methods below follow CPython on ASCII: \<open>strip\<close> removes the ASCII whitespace
  characters (code points 9 to 13 and 28 to 32; CPython also removes the non-ASCII
  Unicode spaces), and \<open>lower\<close> folds the letters A to Z (CPython also folds non-ASCII
  cased letters, which never produces or removes one of the ASCII keywords searched for
  in the lowered text). \<open>find\<close>, \<open>in\<close>, \<open>split\<close>, slicing and concatenation agree with
  the code point semantics on every text, UTF-8 being self-synchronising and all
  separators used by the code being ASCII.
\<close>

definition py_isspace :: "char \<Rightarrow> bool" where
  "py_isspace c = (let n = (of_char c :: nat) in (9 \<le> n \<and> n \<le> 13) \<or> (28 \<le> n \<and> n \<le> 32))"

definition py_lstrip :: "string \<Rightarrow> string" where
  "py_lstrip s = dropWhile py_isspace s"

definition py_rstrip :: "string \<Rightarrow> string" where
  "py_rstrip s = rev (dropWhile py_isspace (rev s))"

text \<open>\<open>s.strip()\<close>\<close>

definition py_strip :: "string \<Rightarrow> string" where
  "py_strip s = py_rstrip (py_lstrip s)"


definition lower_char :: "char \<Rightarrow> char" where
  "lower_char c =
     (case map_of (zip ''ABCDEFGHIJKLMNOPQRSTUVWXYZ'' ''abcdefghijklmnopqrstuvwxyz'') c of
        Some d \<Rightarrow> d
      | None \<Rightarrow> c)"

text \<open>\<open>s.lower()\<close>\<close>

definition py_lower :: "string \<Rightarrow> string" where
  "py_lower s = map lower_char s"

text \<open>\<open>s.startswith(p)\<close>\<close>

fun startswith :: "string \<Rightarrow> string \<Rightarrow> bool" where
  "startswith s [] = True"
| "startswith [] (p # ps) = False"
| "startswith (c # cs) (p # ps) = (c = p \<and> startswith cs ps)"

text \<open>\<open>sub in s\<close>: \<open>sub\<close> occurs in \<open>s\<close> as a contiguous block.\<close>

fun py_in :: "string \<Rightarrow> string \<Rightarrow> bool" where
  "py_in sub [] = (sub = [])"
| "py_in sub (c # cs) = (startswith (c # cs) sub \<or> py_in sub cs)"

text \<open>
  \<open>s.find(sub, start)\<close> for \<open>0 \<le> start\<close>: the least index \<open>i \<ge> start\<close> at which
  \<open>sub\<close> begins in \<open>s\<close>, or \<open>-1\<close>.
\<close>

fun find_aux :: "string \<Rightarrow> string \<Rightarrow> nat \<Rightarrow> int" where
  "find_aux sub [] i = (if sub = [] then int i else - 1)"
| "find_aux sub (c # cs) i =
     (if startswith (c # cs) sub then int i else find_aux sub cs (Suc i))"

definition py_find :: "string \<Rightarrow> string \<Rightarrow> nat \<Rightarrow> int" where
  "py_find s sub start =
     (if length s < start then - 1 else find_aux sub (drop start s) start)"


text \<open>\<open>sep.join(parts)\<close>\<close>

fun py_join :: "string \<Rightarrow> string list \<Rightarrow> string" where
  "py_join sep [] = []"
| "py_join sep [p] = p"
| "py_join sep (p # q # ps) = p @ sep @ py_join sep (q # ps)"

text \<open>
  \<open>xs[:n]\<close> for a Python integer \<open>n\<close>: the first \<open>n\<close> elements, and for a negative
  \<open>n\<close> all but the last \<open>-n\<close>.
\<close>

definition py_take :: "int \<Rightarrow> 'a list \<Rightarrow> 'a list" where
  "py_take n xs = (if 0 \<le> n then take (nat n) xs else take (length xs - nat (- n)) xs)"

text \<open>\<open>xs[-n:]\<close> for a positive literal \<open>n\<close>: the last \<open>n\<close> elements.\<close>

definition py_last_n :: "nat \<Rightarrow> 'a list \<Rightarrow> 'a list" where
  "py_last_n n xs = drop (length xs - n) xs"

section \<open>Audio service: the voice profile heuristic\<close>

text \<open>The four persona names, as the UTF-8 bytes of the source's literals.\<close>

definition charming_girlfriend :: string where
  "charming_girlfriend =
     [CHR 0xE9, CHR 0xAD, CHR 0x85, CHR 0xE5, CHR 0x8A, CHR 0x9B,
      CHR 0xE5, CHR 0xA5, CHR 0xB3, CHR 0xE5, CHR 0x8F, CHR 0x8B]"

definition gentle_girlfriend :: string where
  "gentle_girlfriend =
     [CHR 0xE6, CHR 0x9F, CHR 0x94, CHR 0xE7, CHR 0xBE, CHR 0x8E,
      CHR 0xE5, CHR 0xA5, CHR 0xB3, CHR 0xE5, CHR 0x8F, CHR 0x8B]"

definition tsundere_ceo :: string where
  "tsundere_ceo =
     [CHR 0xE5, CHR 0x82, CHR 0xB2, CHR 0xE5, CHR 0xA8, CHR 0x87,
      CHR 0xE9, CHR 0x9C, CHR 0xB8, CHR 0xE6, CHR 0x80, CHR 0xBB]"

definition righteous_youth :: string where
  "righteous_youth =
     [CHR 0xE6, CHR 0xAD, CHR 0xA3, CHR 0xE7, CHR 0x9B, CHR 0xB4,
      CHR 0xE9, CHR 0x9D, CHR 0x92, CHR 0xE5, CHR 0xB9, CHR 0xB4]"

text \<open>\<open>AudioService._voice_profile_map\<close>, a dict from profile id to persona name.\<close>

definition voice_profile_map :: "(string \<times> string) list" where
  "voice_profile_map =
     [(''7426720361733013513'', charming_girlfriend),
      (''7426720361733046281'', gentle_girlfriend),
      (''7426720361733210121'', tsundere_ceo),
      (''7468518846874271795'', righteous_youth)]"

text \<open>\<open>AudioService._classify_voice_profile\<close>\<close>

definition classify_voice_profile :: "string \<Rightarrow> string" where
  "classify_voice_profile emotion_analysis =
     (if emotion_analysis = [] then ''7468518846874271795''
      else
        let lower = py_lower emotion_analysis in
        if list_ex (\<lambda>word. py_in word lower) [''soft'', ''gentle'', ''caring'', ''tender'']
        then ''7426720361733046281''
        else if list_ex (\<lambda>word. py_in word lower)
                  [''joy'', ''playful'', ''friendly'', ''charming'', ''sweet'']
        then ''7426720361733013513''
        else if list_ex (\<lambda>word. py_in word lower)
                  [''authoritative'', ''deep'', ''powerful'', ''boss'', ''commanding'']
        then ''7426720361733210121''
        else ''7468518846874271795'')"

section \<open>Exceptions and dicts\<close>

text \<open>
  The exceptions the modelled code can raise, as values. All of them are subclasses of
  Python's \<open>Exception\<close>, so an \<open>except Exception\<close> clause catches each of them.
  \<open>ProviderError\<close> stands for whatever an external client (completion model, embedding
  model, vector index, speech model) raises; its text is what \<open>str(e)\<close> gives.
  \<open>str_of_error\<close> is \<open>str(e)\<close>; for a \<open>KeyError\<close> that is the key between quotes.
\<close>

datatype error = ZeroDivisionError | KeyError string | IndexError | ProviderError string

fun str_of_error :: "error \<Rightarrow> string" where
  "str_of_error ZeroDivisionError = ''float division by zero''"
| "str_of_error (KeyError k) = [CHR 0x27] @ k @ [CHR 0x27]"
| "str_of_error IndexError = ''list index out of range''"
| "str_of_error (ProviderError msg) = msg"

text \<open>
  A dict is an association list in insertion order with one entry per key.
  \<open>d.get(k, dflt)\<close>, \<open>d[k] = v\<close> (an existing key keeps its place, a new key goes last)
  and \<open>d[k]\<close>, which raises \<open>KeyError\<close> on a missing key.
\<close>

definition dict_get :: "('k \<times> 'v) list \<Rightarrow> 'k \<Rightarrow> 'v \<Rightarrow> 'v" where
  "dict_get d k dflt = (case map_of d k of None \<Rightarrow> dflt | Some v \<Rightarrow> v)"

fun dict_set :: "('k \<times> 'v) list \<Rightarrow> 'k \<Rightarrow> 'v \<Rightarrow> ('k \<times> 'v) list" where
  "dict_set [] k v = [(k, v)]"
| "dict_set ((k', v') # d) k v = (if k' = k then (k, v) # d else (k', v') # dict_set d k v)"

definition dict_item :: "(string \<times> 'v) list \<Rightarrow> string \<Rightarrow> error + 'v" where
  "dict_item d k = (case map_of d k of None \<Rightarrow> Inl (KeyError k) | Some v \<Rightarrow> Inr v)"


section \<open>Rank fusion\<close>

text \<open>
  A match returned by the vector index: \<open>match['id']\<close>, \<open>match['score']\<close> and
  \<open>match['metadata']\<close>. Python floats are modelled by exact rationals throughout:
  the theorems about scores are about the arithmetic the code writes down, not about
  its rounding.
\<close>

record match =
  match_id :: string
  score :: rat
  metadata :: "(string \<times> string) list"

text \<open>
  The inner loop of \<open>_reciprocal_rank_fusion\<close>, from position \<open>rank\<close> on:
  \<open>scores[doc_id] = scores.get(doc_id, 0) + 1.0 / (k + rank)\<close>.
\<close>

fun rrf_list :: "int \<Rightarrow> nat \<Rightarrow> match list \<Rightarrow> (string \<times> rat) list \<Rightarrow> error + (string \<times> rat) list" where
  "rrf_list k rank [] scores = Inr scores"
| "rrf_list k rank (m # ms) scores =
     (if k + int rank = 0 then Inl ZeroDivisionError
      else rrf_list k (Suc rank) ms
             (dict_set scores (match_id m)
                (dict_get scores (match_id m) 0 + 1 / of_int (k + int rank))))"

text \<open>The outer loop over \<open>results_lists\<close>.\<close>

fun rrf_lists :: "int \<Rightarrow> match list list \<Rightarrow> (string \<times> rat) list \<Rightarrow> error + (string \<times> rat) list" where
  "rrf_lists k [] scores = Inr scores"
| "rrf_lists k (result_list # rest) scores =
     (case rrf_list k 0 result_list scores of
        Inl e \<Rightarrow> Inl e
      | Inr scores' \<Rightarrow> rrf_lists k rest scores')"

text \<open>The dict \<open>scores\<close> when both loops are done.\<close>

definition rrf_scores :: "match list list \<Rightarrow> int \<Rightarrow> error + (string \<times> rat) list" where
  "rrf_scores results_lists k = rrf_lists k results_lists []"

text \<open>
  \<open>sorted(scores, key=scores.get, reverse=True)\<close>: the keys in dict order, sorted by
  descending score; Python's sort is stable, also with \<open>reverse=True\<close>, and so is
  \<open>sort_key\<close> on the negated score.
\<close>

definition sorted_ids :: "(string \<times> rat) list \<Rightarrow> string list" where
  "sorted_ids scores = sort_key (\<lambda>doc_id. - dict_get scores doc_id 0) (map fst scores)"

text \<open>\<open>{m['id']: m for l in results_lists for m in l}\<close>: a later match replaces an earlier one.\<close>

definition id_to_match :: "match list list \<Rightarrow> (string \<times> match) list" where
  "id_to_match results_lists =
     fold (\<lambda>m d. dict_set d (match_id m) m) (concat results_lists) []"

text \<open>\<open>[id_to_match[doc_id] for doc_id in sorted_ids]\<close>\<close>

fun lookup_all :: "(string \<times> match) list \<Rightarrow> string list \<Rightarrow> error + match list" where
  "lookup_all d [] = Inr []"
| "lookup_all d (doc_id # ids) =
     (case dict_item d doc_id of
        Inl e \<Rightarrow> Inl e
      | Inr m \<Rightarrow> (case lookup_all d ids of Inl e \<Rightarrow> Inl e | Inr ms \<Rightarrow> Inr (m # ms)))"

text \<open>\<open>RAGService._reciprocal_rank_fusion\<close>\<close>

definition reciprocal_rank_fusion :: "match list list \<Rightarrow> int \<Rightarrow> error + match list" where
  "reciprocal_rank_fusion results_lists k =
     (case rrf_scores results_lists k of
        Inl e \<Rightarrow> Inl e
      | Inr scores \<Rightarrow>
          (case lookup_all (id_to_match results_lists) (sorted_ids scores) of
             Inl e \<Rightarrow> Inl e
           | Inr fused \<Rightarrow> Inr (py_take k fused)))"




section \<open>The world of the services\<close>

text \<open>
  Values that are not always strings: a message's content, the \<open>content\<close> argument
  of the pipeline and the reply of the chat service are \<open>None\<close>, a \<open>str\<close>, or a
  multimodal payload (a dict of strings).
\<close>

datatype pyval = PyNone | Str string | Obj "(string \<times> string) list"

text \<open>A chat message: a dict with the optional keys \<open>role\<close> and \<open>content\<close>.\<close>

type_synonym message = "(string \<times> pyval) list"

type_synonym vector = "rat list"

text \<open>
  A call \<open>chat.completions.create(model=..., messages=[{"role": "user", "content":
  prompt}], max_tokens=..., temperature=...)\<close>.
\<close>

record chat_request =
  model :: string
  prompt :: string
  max_tokens :: nat
  temperature :: rat

text \<open>A call \<open>index.query(vector=..., top_k=..., include_metadata=True, filter=...)\<close>.\<close>

record query_request =
  query_vector :: vector
  top_k :: int
  query_filter :: "(string \<times> string) list"

text \<open>
  What the services change or leave behind: the records of the vector index (id,
  values, metadata), the error and warning lines logged, and the requests sent to the
  completion model, the embedding model, the vector index and the memory service, in
  order.
  Informational logging and debug prints have no effect on any result and are left out.
\<close>

record world =
  pinecone_index :: "(string \<times> vector \<times> (string \<times> string) list) list"
  logged :: "string list"
  completions :: "chat_request list"
  embedded :: "string list"
  queries :: "query_request list"
  remembered :: "(string \<times> message list) list"

text \<open>What the memory service hands back, with the profile dict already rendered.\<close>

record memory_result =
  mem_context :: string
  mem_profile :: string
  mem_summary :: string

text \<open>
  The external collaborators, as functions of the world at the time of the call, so
  that two calls with the same arguments may answer differently. Each client call
  either raises (\<open>Inl\<close>) or returns.
  \<^item> \<open>chat_create\<close>: the OpenAI completion client; the result is
    \<open>response.choices[0].message.content\<close>.
  \<^item> \<open>qwen_create\<close>: the same call on the DashScope client of the audio service.
  \<^item> \<open>embeddings_create\<close>: the embedding client; the result is \<open>data[0].embedding\<close>.
  \<^item> \<open>upsert_fault\<close>, \<open>query_fault\<close>: whether the vector index raises on this call.
  \<^item> \<open>similarity\<close>: the score the vector index gives a stored vector for a query vector.
  \<^item> \<open>transcribe\<close>: base64 decoding and the speech-to-text call.
  \<^item> \<open>audio_service_init\<close>: whether importing and constructing the audio service raises.
  \<^item> \<open>process_conversation\<close>: the memory service with its histories and profiles;
    its result only enters the prompt.
  \<^item> \<open>send_chat\<close>: the chat service, \<open>send_chat(user_id, content_list, type)\<close>, with
    the model endpoint, the image analysis and the speech synthesis behind it.
  \<^item> \<open>now\<close>: \<open>datetime.now().isoformat()\<close>.
  \<^item> \<open>str_dict\<close>: Python's \<open>str\<close> of a dict of strings.
  \<^item> \<open>json_loads\<close>: \<open>json.loads\<close>, \<open>None\<close> for a \<open>JSONDecodeError\<close>.
\<close>

record env =
  chat_create :: "world \<Rightarrow> chat_request \<Rightarrow> error + string"
  qwen_create :: "world \<Rightarrow> chat_request \<Rightarrow> error + string"
  embeddings_create :: "world \<Rightarrow> string \<Rightarrow> error + vector"
  upsert_fault :: "world \<Rightarrow> string \<times> vector \<times> (string \<times> string) list \<Rightarrow> error option"
  query_fault :: "world \<Rightarrow> query_request \<Rightarrow> error option"
  similarity :: "vector \<Rightarrow> vector \<Rightarrow> rat"
  transcribe :: "world \<Rightarrow> string \<Rightarrow> error + string"
  audio_service_init :: "world \<Rightarrow> error option"
  process_conversation :: "world \<Rightarrow> string \<Rightarrow> message list \<Rightarrow> error + memory_result"
  send_chat :: "world \<Rightarrow> string \<Rightarrow> message list \<Rightarrow> string \<Rightarrow> error + pyval"
  now :: "world \<Rightarrow> string"
  str_dict :: "(string \<times> string) list \<Rightarrow> string"
  json_loads :: "string \<Rightarrow> pyval option"

text \<open>
  A method that may raise and may change the world: it returns the exception or the
  value, and the world it leaves.
\<close>

type_synonym 'a io = "world \<Rightarrow> (error + 'a) \<times> world"

definition returns :: "'a \<Rightarrow> 'a io" where
  "returns x = (\<lambda>w. (Inr x, w))"

text \<open>Sequencing: an exception of the first part skips the second.\<close>

definition bind :: "'a io \<Rightarrow> ('a \<Rightarrow> 'b io) \<Rightarrow> 'b io" where
  "bind m f = (\<lambda>w. case m w of (Inl e, w') \<Rightarrow> (Inl e, w') | (Inr x, w') \<Rightarrow> f x w')"

text \<open>\<open>try: m except Exception as e: h(e)\<close>\<close>

definition try_except :: "'a io \<Rightarrow> (error \<Rightarrow> 'a io) \<Rightarrow> 'a io" where
  "try_except m h = (\<lambda>w. case m w of (Inl e, w') \<Rightarrow> h e w' | (Inr x, w') \<Rightarrow> (Inr x, w'))"

text \<open>\<open>logger.error(msg)\<close>, \<open>logger.warning(msg)\<close> and the error prints.\<close>

definition log_line :: "string \<Rightarrow> unit io" where
  "log_line msg = (\<lambda>w. (Inr (), w\<lparr>logged := logged w @ [msg]\<rparr>))"

text \<open>\<open>client.chat.completions.create(...)\<close> followed by \<open>.choices[0].message.content\<close>.\<close>

definition chat_completion :: "env \<Rightarrow> chat_request \<Rightarrow> string io" where
  "chat_completion env req =
     (\<lambda>w. (chat_create env w req, w\<lparr>completions := completions w @ [req]\<rparr>))"

text \<open>\<open>RAGService.get_embedding\<close>\<close>

definition get_embedding :: "env \<Rightarrow> string \<Rightarrow> vector io" where
  "get_embedding env text = (\<lambda>w. (embeddings_create env w text, w\<lparr>embedded := embedded w @ [text]\<rparr>))"

text \<open>
  The vector index. \<open>upsert\<close> stores a record under its id, replacing the record that
  has the id. \<open>query\<close> returns, of the records whose metadata has for every key of the
  filter the filter's value, the \<open>top_k\<close> most similar ones, most similar first.
\<close>

fun upsert_record ::
  "(string \<times> vector \<times> (string \<times> string) list) list \<Rightarrow> string \<times> vector \<times> (string \<times> string) list
     \<Rightarrow> (string \<times> vector \<times> (string \<times> string) list) list" where
  "upsert_record [] r = [r]"
| "upsert_record (r' # rs) r = (if fst r' = fst r then r # rs else r' # upsert_record rs r)"

definition index_upsert :: "env \<Rightarrow> string \<times> vector \<times> (string \<times> string) list \<Rightarrow> unit io" where
  "index_upsert env r =
     (\<lambda>w. case upsert_fault env w r of
            Some e \<Rightarrow> (Inl e, w)
          | None \<Rightarrow> (Inr (), w\<lparr>pinecone_index := upsert_record (pinecone_index w) r\<rparr>))"

definition filter_matches :: "(string \<times> string) list \<Rightarrow> (string \<times> string) list \<Rightarrow> bool" where
  "filter_matches flt md = list_all (\<lambda>(key, v). map_of md key = Some v) flt"

definition index_matches :: "env \<Rightarrow> world \<Rightarrow> query_request \<Rightarrow> match list" where
  "index_matches env w req =
     py_take (top_k req)
       (sort_key (\<lambda>m. - score m)
          (map (\<lambda>(i, v, md). \<lparr>match_id = i, score = similarity env (query_vector req) v, metadata = md\<rparr>)
             (filter (\<lambda>(i, v, md). filter_matches (query_filter req) md) (pinecone_index w))))"

definition index_query :: "env \<Rightarrow> query_request \<Rightarrow> match list io" where
  "index_query env req =
     (\<lambda>w. (case query_fault env w req of
              Some e \<Rightarrow> Inl e
            | None \<Rightarrow> Inr (index_matches env w req),
            w\<lparr>queries := queries w @ [req]\<rparr>))"

text \<open>\<open>str(v)\<close> inside an f-string.\<close>

fun format_val :: "env \<Rightarrow> pyval \<Rightarrow> string" where
  "format_val env PyNone = ''None''"
| "format_val env (Str s) = s"
| "format_val env (Obj d) = str_dict env d"

text \<open>Truthiness of a value: \<open>None\<close>, the empty string and the empty dict are false.\<close>

fun truthy :: "pyval \<Rightarrow> bool" where
  "truthy PyNone = False"
| "truthy (Str s) = (s \<noteq> [])"
| "truthy (Obj d) = (d \<noteq> [])"



section \<open>RAG service: fact extraction, query rewriting, paraphrases\<close>

text \<open>\<open>s[a:b]\<close> for bounds that are not negative.\<close>

definition py_slice :: "'a list \<Rightarrow> int \<Rightarrow> int \<Rightarrow> 'a list" where
  "py_slice s a b = drop (nat a) (take (nat b) s)"

text \<open>
  The first half of \<open>extract_key_info\<close>: the pair of \<open>emotional_context\<close> and the
  \<open>text\<close> that is left for the prompt.
\<close>

definition split_emotional_context :: "string \<Rightarrow> string \<times> string" where
  "split_emotional_context text =
     (if py_in ''[Emotional context:'' text then
        let start_idx = py_find text ''[Emotional context:'' 0;
            end_idx = py_find text '']'' (nat start_idx)
        in if end_idx \<noteq> - 1
           then (py_strip (py_slice text (start_idx + 19) end_idx),
                 py_strip (py_slice text 0 start_idx)
                   @ py_strip (drop (nat (end_idx + 1)) text))
           else ([], text)
      else ([], text))"

text \<open>The prompt that \<open>extract_key_info\<close> builds.\<close>

definition extract_key_info_prompt :: "string \<Rightarrow> string \<Rightarrow> string" where
  "extract_key_info_prompt text conversation_context =
     (let context_prompt =
            (if conversation_context \<noteq> []
             then ''\<newline>\<newline>Conversation Context: '' @ conversation_context else []);
          (emotional_context, text') = split_emotional_context text;
          emotion_prompt =
            (if emotional_context \<noteq> []
             then ''\<newline>\<newline>Emotional Context: '' @ emotional_context else [])
      in ''Extract key information from the user message and summarize it in ONE natural sentence. '' @
         ''Include: who (people mentioned), what (main event/action), when (time references), '' @
         ''where (locations), why (purpose/intent), and emotional state. '' @
         ''Make it conversational and natural, like you're describing what the user said to someone else.'' @
         context_prompt @ emotion_prompt @ ''\<newline>\<newline>'' @
         ''User message: '' @ text' @ ''\<newline>\<newline>'' @
         ''Extracted information (one sentence):'')"

text \<open>\<open>RAGService.extract_key_info\<close>; the result is the dict \<open>{"extracted_info": content}\<close>.\<close>

definition extract_key_info :: "env \<Rightarrow> string \<Rightarrow> string \<Rightarrow> (string \<times> string) list io" where
  "extract_key_info env text conversation_context =
     bind (chat_completion env
             \<lparr>model = ''gpt-4o'', prompt = extract_key_info_prompt text conversation_context,
              max_tokens = 200, temperature = 0\<rparr>)
       (\<lambda>response. returns [(''extracted_info'', py_strip response)])"

text \<open>
  The loop that both \<open>rephrase_query_with_context\<close> and the prompt builders run over
  the last four messages of the history.
\<close>

fun history_parts :: "env \<Rightarrow> message list \<Rightarrow> string list" where
  "history_parts env [] = []"
| "history_parts env (msg # msgs) =
     (let role = dict_get msg ''role'' (Str ''unknown'');
          content = dict_get msg ''content'' (Str [])
      in if role = Str ''user'' then (''User: '' @ format_val env content) # history_parts env msgs
         else if role = Str ''assistant''
         then (''Assistant: '' @ format_val env content) # history_parts env msgs
         else history_parts env msgs)"

definition rephrase_prompt :: "string \<Rightarrow> string \<Rightarrow> string" where
  "rephrase_prompt conversation_context query =
         ''Rewrite the question for search while keeping its meaning and key terms intact.\<newline>'' @
         ''        If the conversation history is empty, DO NOT change the query.\<newline>'' @
         ''        Use conversation history only if necessary, and avoid extending the query with your own knowledge.\<newline>'' @
         ''        If no changes are needed, output the current question as is.\<newline>'' @
         ''\<newline>'' @
         ''        Conversation history:\<newline>'' @
         ''        '' @
         conversation_context @
         ''\<newline>'' @
         ''\<newline>'' @
         ''        User Query: '' @
         query @
         ''\<newline>'' @
         ''        Rewritten Query:''"

text \<open>\<open>RAGService.rephrase_query_with_context\<close>\<close>

definition rephrase_query_with_context :: "env \<Rightarrow> string \<Rightarrow> message list \<Rightarrow> string io" where
  "rephrase_query_with_context env query conversation_history =
     (if conversation_history = [] then returns query
      else
        let context_parts = history_parts env (py_last_n 4 conversation_history);
            conversation_context = py_join ''\<newline>'' context_parts
        in try_except
             (bind (chat_completion env
                      \<lparr>model = ''gpt-4o'', prompt = rephrase_prompt conversation_context query,
                       max_tokens = 100, temperature = 0\<rparr>)
                (\<lambda>response. returns (py_strip response)))
             (\<lambda>e. bind (log_line (''Error rephrasing query: '' @ str_of_error e))
                (\<lambda>_. returns query)))"



section \<open>RAG service: storing and retrieving facts\<close>

text \<open>A pure result or exception as a step of a method.\<close>

definition lift :: "error + 'a \<Rightarrow> 'a io" where
  "lift r = (\<lambda>w. (r, w))"

text \<open>\<open>datetime.now().isoformat()\<close>\<close>

definition clock :: "env \<Rightarrow> string io" where
  "clock env = (\<lambda>w. (Inr (now env w), w))"

text \<open>\<open>RAGService.add_extracted_info_to_vector_db\<close>\<close>

definition add_extracted_info_to_vector_db ::
  "env \<Rightarrow> string \<Rightarrow> (string \<times> string) list \<Rightarrow> string option \<Rightarrow> bool io" where
  "add_extracted_info_to_vector_db env user_id extracted_info timestamp =
     bind (case timestamp of None \<Rightarrow> clock env | Some t \<Rightarrow> returns t)
       (\<lambda>timestamp.
     bind (case map_of extracted_info ''extracted_info'' of
             Some info_text \<Rightarrow> returns info_text
           | None \<Rightarrow>
               bind (log_line (''Received old format extracted_info: '' @ str_dict env extracted_info))
                 (\<lambda>_. returns (str_dict env extracted_info)))
       (\<lambda>info_text.
     let metadata = [(''extracted_info'', info_text), (''text'', info_text),
                     (''type'', ''extracted_info''), (''user_id'', user_id),
                     (''timestamp'', timestamp)]
     in try_except
          (bind (get_embedding env info_text)
             (\<lambda>embedding.
           bind (index_upsert env (user_id @ ''_'' @ timestamp @ ''_extracted'', embedding, metadata))
             (\<lambda>_. returns True)))
          (\<lambda>e. bind (log_line (''Error upserting extracted info: '' @ str_of_error e))
             (\<lambda>_. returns False))))"

text \<open>\<open>RAGService.add_voice_profile_to_vector_db\<close>\<close>

definition add_voice_profile_to_vector_db ::
  "env \<Rightarrow> string \<Rightarrow> string option \<Rightarrow> string option \<Rightarrow> bool io" where
  "add_voice_profile_to_vector_db env user_id voice_profile_name timestamp =
     (case voice_profile_name of
        None \<Rightarrow> returns False
      | Some name \<Rightarrow>
          if name = [] then returns False
          else
            bind (case timestamp of None \<Rightarrow> clock env | Some t \<Rightarrow> returns t)
              (\<lambda>timestamp.
            let metadata = [(''voice_profile'', name), (''text'', ''voice_profile::'' @ name),
                            (''type'', ''voice_profile''), (''user_id'', user_id),
                            (''timestamp'', timestamp)]
            in try_except
                 (bind (get_embedding env (''voice_profile::'' @ name))
                    (\<lambda>embedding.
                  bind (index_upsert env (user_id @ ''_voice_profile'', embedding, metadata))
                    (\<lambda>_. returns True)))
                 (\<lambda>e. bind (log_line (''Error upserting voice profile: '' @ str_of_error e))
                    (\<lambda>_. returns False))))"

text \<open>
  The body of the loop of \<open>retrieve_extracted_info\<close>: the result dict for one match,
  in the new format (one sentence) or the old one (the allowed fields, the emotions
  parsed from JSON when they parse).
\<close>

definition extracted_result :: "env \<Rightarrow> match \<Rightarrow> (string \<times> pyval) list io" where
  "extracted_result env m =
     (case map_of (metadata m) ''extracted_info'' of
        Some info \<Rightarrow>
          bind (lift (dict_item (metadata m) ''timestamp''))
            (\<lambda>ts. returns [(''extracted_info'', Str info), (''timestamp'', Str ts)])
      | None \<Rightarrow>
          let result = map (\<lambda>(key, v). (key, Str v))
                         (filter (\<lambda>(key, v). key \<in> set [''person'', ''when'', ''where'', ''event'',
                                                       ''emotions'', ''timestamp''])
                            (metadata m))
          in (case map_of result ''emotions'' of
                Some (Str emotions) \<Rightarrow>
                  (case json_loads env emotions of
                     Some parsed \<Rightarrow> returns (dict_set result ''emotions'' parsed)
                   | None \<Rightarrow>
                       bind (log_line ''Failed to parse emotions JSON string'')
                         (\<lambda>_. returns result))
              | _ \<Rightarrow> returns result))"

fun extracted_results :: "env \<Rightarrow> match list \<Rightarrow> (string \<times> pyval) list list io" where
  "extracted_results env [] = returns []"
| "extracted_results env (m # ms) =
     bind (extracted_result env m)
       (\<lambda>result. bind (extracted_results env ms) (\<lambda>result_list. returns (result # result_list)))"

text \<open>
  \<open>sorted(matches, key=lambda x: x['metadata']['timestamp'], reverse=True)\<close>: a
  \<open>KeyError\<close> when a match has no timestamp; otherwise the stable sort by descending
  timestamp, which is the reverse of the stable ascending sort of the reversed list.
\<close>

fun first_missing :: "string \<Rightarrow> match list \<Rightarrow> error option" where
  "first_missing key [] = None"
| "first_missing key (m # ms) =
     (case map_of (metadata m) key of None \<Rightarrow> Some (KeyError key) | Some _ \<Rightarrow> first_missing key ms)"

definition sorted_by_timestamp :: "match list \<Rightarrow> error + match list" where
  "sorted_by_timestamp matches =
     (case first_missing ''timestamp'' matches of
        Some e \<Rightarrow> Inl e
      | None \<Rightarrow> Inr (rev (sort_key (\<lambda>m. dict_get (metadata m) ''timestamp'' []) (rev matches))))"

text \<open>\<open>RAGService.retrieve_extracted_info\<close>\<close>

definition retrieve_extracted_info :: "env \<Rightarrow> string \<Rightarrow> int \<Rightarrow> (string \<times> pyval) list list io" where
  "retrieve_extracted_info env user_id k =
     try_except
       (let query_text = ''user '' @ user_id @ '' extracted info''
        in bind (get_embedding env query_text)
             (\<lambda>embedding.
           bind (index_query env
                   \<lparr>query_vector = embedding, top_k = k,
                    query_filter = [(''user_id'', user_id), (''type'', ''extracted_info'')]\<rparr>)
             (\<lambda>matches.
           if matches \<noteq> [] then
             bind (lift (sorted_by_timestamp matches)) (\<lambda>sorted_matches.
               extracted_results env sorted_matches)
           else returns [])))
       (\<lambda>e. bind (log_line (''Error retrieving extracted info: '' @ str_of_error e))
          (\<lambda>_. returns []))"

text \<open>\<open>RAGService._build_conversation_context\<close>\<close>

fun conversation_pairs :: "env \<Rightarrow> message list \<Rightarrow> string list" where
  "conversation_pairs env (user_msg # assistant_msg # rest) =
     (''User: '' @ format_val env (dict_get user_msg ''content'' (Str [])) @
      ''\<newline>Assistant: '' @ format_val env (dict_get assistant_msg ''content'' (Str [])))
     # conversation_pairs env rest"
| "conversation_pairs env _ = []"

definition build_conversation_context :: "env \<Rightarrow> message list \<Rightarrow> string" where
  "build_conversation_context env chat_history =
     (if chat_history = [] then []
      else
        let recent_messages =
              (if length chat_history > 6 then py_last_n 6 chat_history else chat_history)
        in py_join ''\<newline>'' (conversation_pairs env recent_messages))"

text \<open>The bullet \<open>U+2022\<close> followed by a space, in front of each part.\<close>

definition bullet :: "string \<Rightarrow> string" where
  "bullet part = [CHR 0xE2, CHR 0x80, CHR 0xA2] @ '' '' @ part"

text \<open>
  \<open>RAGService._build_relevant_context\<close>. The parameter \<open>current_message\<close> is not
  used by the body.
\<close>

definition build_relevant_context :: "env \<Rightarrow> string \<Rightarrow> string \<Rightarrow> string io" where
  "build_relevant_context env user_id current_message =
     try_except
       (bind (retrieve_extracted_info env user_id 5)
          (\<lambda>extracted_infos.
        if extracted_infos = [] then returns ''No previous context available.''
        else
          let context_parts =
                map (\<lambda>info. dict_get info ''extracted_info'' PyNone)
                  (filter (\<lambda>info. case map_of info ''extracted_info'' of
                                     None \<Rightarrow> False | Some v \<Rightarrow> truthy v)
                     extracted_infos)
          in if context_parts \<noteq> []
             then returns (''Relevant Context:\<newline>'' @
                    py_join ''\<newline>'' (map (\<lambda>part. bullet (format_val env part)) context_parts))
             else returns ''Relevant Context: Limited information available.''))
       (\<lambda>e. bind (log_line (''Error building relevant context: '' @ str_of_error e))
          (\<lambda>_. returns ''Relevant Context: Error retrieving context information.''))"

text \<open>\<open>RAGService._retrieve_semantic_context\<close>\<close>

definition retrieve_semantic_context :: "env \<Rightarrow> string \<Rightarrow> string \<Rightarrow> string io" where
  "retrieve_semantic_context env user_id current_message =
     try_except
       (bind (get_embedding env current_message)
          (\<lambda>query_embedding.
        bind (index_query env
                \<lparr>query_vector = query_embedding, top_k = 3,
                 query_filter = [(''user_id'', user_id), (''type'', ''extracted_info'')]\<rparr>)
          (\<lambda>matches.
        let semantic_parts =
              concat (map (\<lambda>m. if score m > 7 / 10
                                then (case map_of (metadata m) ''extracted_info'' of
                                        Some info \<Rightarrow> [info] | None \<Rightarrow> [])
                                else [])
                        matches)
        in if matches \<noteq> [] then
             if semantic_parts \<noteq> []
             then returns (''Semantic Context:\<newline>'' @ py_join ''\<newline>'' (map bullet semantic_parts))
             else returns ''Semantic Context: No specific context found for this message.''
           else returns ''Semantic Context: No specific context found for this message.'')))
       (\<lambda>e. bind (log_line (''Error retrieving semantic context: '' @ str_of_error e))
          (\<lambda>_. returns ''Semantic Context: Error retrieving context.''))"

text \<open>\<open>RAGService._build_enhanced_prompt_with_memory\<close>\<close>

definition build_enhanced_prompt_with_memory ::
  "env \<Rightarrow> string \<Rightarrow> string \<Rightarrow> string \<Rightarrow> string \<Rightarrow> string \<Rightarrow> message list \<Rightarrow> string \<Rightarrow> string
     \<Rightarrow> string" where
  "build_enhanced_prompt_with_memory env memory_context memory_summary user_profile
       relevant_context semantic_context chat_history user_message voice_profile_prompt =
     (let formatted_history =
            (if chat_history \<noteq> []
             then py_join ''\<newline>'' (history_parts env (py_last_n 4 chat_history)) else [])
      in ''You are a helpful AI assistant with access to conversation context, memory, and history.\<newline>'' @
      ''\<newline>'' @
      ''            Memory Context:\<newline>'' @
      ''            '' @
      memory_context @
      ''\<newline>'' @
      ''\<newline>'' @
      ''            Memory Summary:\<newline>'' @
      ''            '' @
      memory_summary @
      ''\<newline>'' @
      ''\<newline>'' @
      ''            User Profile:\<newline>'' @
      ''            '' @
      user_profile @
      ''\<newline>'' @
      ''\<newline>'' @
      ''            '' @
      relevant_context @
      ''\<newline>'' @
      ''\<newline>'' @
      ''            '' @
      semantic_context @
      ''\<newline>'' @
      ''\<newline>'' @
      ''            Recent Conversation:\<newline>'' @
      ''            '' @
      formatted_history @
      ''\<newline>'' @
      ''\<newline>'' @
      ''            Current User Message:\<newline>'' @
      ''            '' @
      user_message @
      ''\<newline>'' @
      ''\<newline>'' @
      ''            Instructions:\<newline>'' @
      ''            1. Use the relevant context and memory to provide personalized responses\<newline>'' @
      ''            2. Reference semantic context when appropriate for better understanding\<newline>'' @
      ''            3. Maintain conversation continuity and flow\<newline>'' @
      ''            4. Be helpful, empathetic, and engaging\<newline>'' @
      ''            5. If the user asks about something you don't know, say so rather than guessing\<newline>'' @
      ''\<newline>'' @
      ''            '' @
      voice_profile_prompt @
      ''\<newline>'' @
      ''\<newline>'' @
      ''            Your response:'')"

section \<open>RAG service: multi-query retrieval\<close>






section \<open>RAG service: voice profile from text\<close>

text \<open>\<open>RAGService.voice_profile_prompts\<close>\<close>

definition voice_profile_prompts :: "(string \<times> string) list" where
  "voice_profile_prompts =
     [(charming_girlfriend,
       ''Respond in a charming and playful girlfriend tone, using sweet expressions and light humor.''),
      (gentle_girlfriend,
       ''Respond in a gentle, caring tone, softly comforting and encouraging the user.''),
      (tsundere_ceo,
       ''Respond in a confident, slightly teasing CEO-like tone with a hint of tsundere warmth underneath.''),
      (righteous_youth,
       ''Respond in a straightforward, righteous young male tone, honest and spirited.'')]"

text \<open>\<open>s.split()[0]\<close>: the first run of characters that are not whitespace.\<close>

definition first_token :: "string \<Rightarrow> error + string" where
  "first_token s =
     (if py_lstrip s = [] then Inl IndexError
      else Inr (takeWhile (\<lambda>c. \<not> py_isspace c) (py_lstrip s)))"

definition classification_prompt :: "string \<Rightarrow> string" where
  "classification_prompt text =
     ''You are an emotion classifier that maps user text to one of four profiles: '' @
     charming_girlfriend @ '' (charming girlfriend, playful, sweet), '' @
     gentle_girlfriend @ '' (gentle girlfriend, caring, soft), '' @
     tsundere_ceo @ '' (tsundere CEO, confident, teasing), '' @
     righteous_youth @ '' (upright young man, honest, spirited).\<newline>\<newline>'' @
     ''Read the USER_TEXT delimited by triple backticks and output ONLY the profile name that best fits.\<newline>'' @
     ''If unsure choose '' @ righteous_youth @ ''.\<newline>\<newline>'' @
     ''```\<newline>'' @ text @ ''\<newline>```''"

text \<open>\<open>RAGService.classify_voice_profile_from_text\<close>\<close>

definition classify_voice_profile_from_text :: "env \<Rightarrow> string \<Rightarrow> string io" where
  "classify_voice_profile_from_text env text =
     try_except
       (bind (chat_completion env
                \<lparr>model = ''gpt-4o'', prompt = classification_prompt text,
                 max_tokens = 5, temperature = 0\<rparr>)
          (\<lambda>response.
        bind (lift (first_token (py_strip response)))
          (\<lambda>profile.
        if map_of voice_profile_prompts profile \<noteq> None then returns profile
        else returns righteous_youth)))
       (\<lambda>e. bind (log_line (''Voice profile classification failed: '' @ str_of_error e))
          (\<lambda>_. returns righteous_youth))"

section \<open>Audio service: processing a recording\<close>

text \<open>The dict that \<open>process_audio\<close> returns; an absent key reads as \<open>None\<close>.\<close>

record audio_result =
  res_transcription :: "string option"
  res_emotion_analysis :: "string option"
  res_voice_profile_id :: "string option"
  res_voice_profile_name :: "string option"
  res_error :: "string option"

definition neutral_emotion :: string where
  "neutral_emotion =
     ''The speaker's emotional state appears neutral with no strong emotional indicators detected.''"

text \<open>\<open>AudioService._transcribe_audio\<close>\<close>

definition transcribe_audio :: "env \<Rightarrow> string \<Rightarrow> string option io" where
  "transcribe_audio env audio_data =
     try_except
       (bind (\<lambda>w. (transcribe env w audio_data, w)) (\<lambda>response. returns (Some response)))
       (\<lambda>e. bind (log_line (''Error transcribing audio: '' @ str_of_error e))
          (\<lambda>_. returns None))"

definition emotion_prompt_of :: "string \<Rightarrow> string" where
  "emotion_prompt_of text =
         ''\<newline>'' @
         ''                Analyze the emotional content of this transcribed speech and provide a single natural sentence summary.\<newline>'' @
         ''                \<newline>'' @
         ''                The summary should include:\<newline>'' @
         ''                - The primary emotion detected (joy, sadness, anger, fear, surprise, etc.)\<newline>'' @
         ''                - Emotional intensity level (mild, moderate, strong)\<newline>'' @
         ''                - Any notable speech patterns or emotional indicators\<newline>'' @
         ''                - The overall emotional context\<newline>'' @
         ''                \<newline>'' @
         ''                Write this as a natural, conversational sentence that someone would use to describe the speaker's emotional state.\<newline>'' @
         ''                \<newline>'' @
         ''                Transcribed Text: \"'' @
         text @
         ''\"\<newline>'' @
         ''                \<newline>'' @
         ''                Emotional summary (one sentence):\<newline>'' @
         ''                ''"

text \<open>\<open>AudioService._analyze_emotion\<close>\<close>

definition analyze_emotion :: "env \<Rightarrow> string \<Rightarrow> string io" where
  "analyze_emotion env text =
     try_except
       (bind (\<lambda>w. (qwen_create env w
                      \<lparr>model = ''qwen-max'', prompt = emotion_prompt_of text,
                       max_tokens = 100, temperature = 3 / 10\<rparr>, w))
          (\<lambda>response. returns (py_strip response)))
       (\<lambda>e. bind (log_line (''Error analyzing emotion: '' @ str_of_error e))
          (\<lambda>_. returns neutral_emotion))"

text \<open>\<open>AudioService.process_audio\<close>\<close>

definition process_audio :: "env \<Rightarrow> string \<Rightarrow> audio_result io" where
  "process_audio env audio_data =
     try_except
       (bind (transcribe_audio env audio_data)
          (\<lambda>transcription.
        case transcription of
          None \<Rightarrow>
            returns \<lparr>res_transcription = None, res_emotion_analysis = None,
                     res_voice_profile_id = None, res_voice_profile_name = None,
                     res_error = Some ''Failed to transcribe audio''\<rparr>
        | Some t \<Rightarrow>
            if t = [] then
              returns \<lparr>res_transcription = None, res_emotion_analysis = None,
                       res_voice_profile_id = None, res_voice_profile_name = None,
                       res_error = Some ''Failed to transcribe audio''\<rparr>
            else
              bind (analyze_emotion env t)
                (\<lambda>analysis.
              let emotion_analysis = (if analysis = [] then neutral_emotion else analysis)
              in returns \<lparr>res_transcription = Some t, res_emotion_analysis = Some emotion_analysis,
                          res_voice_profile_id = Some (classify_voice_profile emotion_analysis),
                          res_voice_profile_name =
                            map_of voice_profile_map (classify_voice_profile emotion_analysis),
                          res_error = None\<rparr>)))
       (\<lambda>e. bind (log_line (''Error processing audio: '' @ str_of_error e))
          (\<lambda>_. returns \<lparr>res_transcription = None, res_emotion_analysis = None,
                          res_voice_profile_id = None, res_voice_profile_name = None,
                          res_error = Some (str_of_error e)\<rparr>))"

section \<open>RAG service: the pipeline\<close>

text \<open>The calls to the memory service and to the chat service.\<close>

definition memory_process :: "env \<Rightarrow> string \<Rightarrow> message list \<Rightarrow> memory_result io" where
  "memory_process env user_id messages =
     (\<lambda>w. (process_conversation env w user_id messages,
            w\<lparr>remembered := remembered w @ [(user_id, messages)]\<rparr>))"

definition chat_service :: "env \<Rightarrow> string \<Rightarrow> message list \<Rightarrow> string \<Rightarrow> pyval io" where
  "chat_service env user_id content_list type = (\<lambda>w. (send_chat env w user_id content_list type, w))"

definition user_turn :: "pyval \<Rightarrow> message" where
  "user_turn c = [(''role'', Str ''user''), (''content'', c)]"

text \<open>
  The first part of \<open>rag_pipeline\<close>: the conversation goes through the memory service;
  when that fails the three context fields are empty. The result is \<open>memory_messages\<close>
  with the context fields.
\<close>

definition memory_ingestion ::
  "env \<Rightarrow> string \<Rightarrow> string \<Rightarrow> message list \<Rightarrow> (message list \<times> memory_result) io" where
  "memory_ingestion env user_id user_message chat_history =
     (let memory_messages = chat_history @ [user_turn (Str user_message)]
      in try_except
           (bind (memory_process env user_id memory_messages)
              (\<lambda>memory_result. returns (memory_messages, memory_result)))
           (\<lambda>e. bind (log_line (''Memory service processing failed: '' @ str_of_error e))
              (\<lambda>_. returns (memory_messages,
                             \<lparr>mem_context = [], mem_profile = ''{}'', mem_summary = []\<rparr>))))"

text \<open>
  The branch of \<open>rag_pipeline\<close> for audio input. The result is the triple of
  \<open>user_message\<close>, \<open>voice_profile_name\<close> and \<open>voice_profile_prompt\<close> after the branch.
\<close>

definition audio_branch :: "env \<Rightarrow> string \<Rightarrow> pyval \<Rightarrow> (string \<times> string option \<times> string) io" where
  "audio_branch env user_id content =
     try_except
       (bind (\<lambda>w. (case audio_service_init env w of Some e \<Rightarrow> Inl e | None \<Rightarrow> Inr (), w))
          (\<lambda>_.
        let audio_data =
              (case content of
                 Obj d \<Rightarrow> if map_of d ''type'' = Some ''audio_base64'' then dict_get d ''data'' []
                          else str_dict env d
               | Str data \<Rightarrow> data
               | PyNone \<Rightarrow> ''None'')
        in bind (process_audio env audio_data)
          (\<lambda>result.
        let transcription = res_transcription result;
            emotion_analysis = res_emotion_analysis result;
            voice_profile_name = res_voice_profile_name result
        in bind (add_voice_profile_to_vector_db env user_id voice_profile_name None)
          (\<lambda>_.
        let voice_profile_prompt =
              (case voice_profile_name of
                 None \<Rightarrow> []
               | Some name \<Rightarrow>
                   if name \<noteq> [] then dict_get voice_profile_prompts name [] else []);
            user_message =
              (case transcription of
                 None \<Rightarrow> ''[Audio transcription failed]''
               | Some t \<Rightarrow>
                   if t = [] then ''[Audio transcription failed]''
                   else (case emotion_analysis of
                           None \<Rightarrow> t
                         | Some e \<Rightarrow> if e \<noteq> [] then t @ '' [Emotional context: '' @ e @ '']'' else t))
        in returns (user_message, voice_profile_name, voice_profile_prompt)))))
       (\<lambda>e. bind (log_line (''Error processing audio in RAG pipeline: '' @ str_of_error e))
          (\<lambda>_. returns (''[Audio processing failed]'', None, [])))"

text \<open>The branch for text input.\<close>

definition text_branch :: "env \<Rightarrow> string \<Rightarrow> string \<Rightarrow> (string \<times> string option \<times> string) io" where
  "text_branch env user_id user_message =
     bind (classify_voice_profile_from_text env user_message)
       (\<lambda>voice_profile_name.
     bind (add_voice_profile_to_vector_db env user_id (Some voice_profile_name) None)
       (\<lambda>_. returns (user_message, Some voice_profile_name,
                      dict_get voice_profile_prompts voice_profile_name [])))"

text \<open>
  \<open>RAGService.rag_pipeline\<close>. The result is the pair of the reply and the voice
  profile name.
\<close>

definition rag_pipeline ::
  "env \<Rightarrow> string \<Rightarrow> string \<Rightarrow> message list \<Rightarrow> string \<Rightarrow> pyval \<Rightarrow> (pyval \<times> string option) io" where
  "rag_pipeline env user_id user_message chat_history input_type content =
     bind (memory_ingestion env user_id user_message chat_history)
       (\<lambda>(memory_messages, mem).
     bind (if input_type = ''audio'' \<and> truthy content then audio_branch env user_id content
           else if input_type = ''text'' then text_branch env user_id user_message
           else returns (user_message, None, []))
       (\<lambda>(user_message, voice_profile_name, voice_profile_prompt).
     bind (rephrase_query_with_context env user_message chat_history)
       (\<lambda>rephrased_query.
     let conversation_context = build_conversation_context env chat_history
     in bind (extract_key_info env user_message conversation_context)
       (\<lambda>extracted.
     bind (add_extracted_info_to_vector_db env user_id extracted None)
       (\<lambda>_.
     bind (build_relevant_context env user_id rephrased_query)
       (\<lambda>relevant_context.
     bind (retrieve_semantic_context env user_id rephrased_query)
       (\<lambda>semantic_context.
     let prompt = build_enhanced_prompt_with_memory env (mem_context mem) (mem_summary mem)
                    (mem_profile mem) relevant_context semantic_context chat_history
                    user_message voice_profile_prompt
     in if input_type = ''text'' \<or> input_type = ''audio'' then
          bind (chat_service env user_id [user_turn (Str prompt)] ''text'')
            (\<lambda>llm_response.
          bind (try_except
                  (bind (memory_process env user_id
                           (memory_messages @ [[(''role'', Str ''assistant''), (''content'', llm_response)]]))
                     (\<lambda>_. returns ()))
                  (\<lambda>e. log_line (''Failed to store conversation in memory: '' @ str_of_error e)))
            (\<lambda>_. returns (llm_response, voice_profile_name)))
        else
          let content_list =
                chat_history @
                (if startswith input_type ''image'' \<and> truthy content then [user_turn content]
                 else if user_message \<noteq> [] then [user_turn (Str user_message)]
                 else [])
          in bind (chat_service env user_id content_list input_type)
               (\<lambda>llm_response. returns (llm_response, voice_profile_name)))))))))"

section \<open>Fixtures for the examples\<close>

text \<open>
  An environment in which every model call answers \<open>reply\<close>, every embedding is the
  empty vector, nothing fails and the clock stands still; and the world before any call.
\<close>

definition canned_env :: "string \<Rightarrow> env" where
  "canned_env reply =
     \<lparr>chat_create = (\<lambda>w req. Inr reply),
      qwen_create = (\<lambda>w req. Inr reply),
      embeddings_create = (\<lambda>w text. Inr []),
      upsert_fault = (\<lambda>w r. None),
      query_fault = (\<lambda>w req. None),
      similarity = (\<lambda>q v. 1),
      transcribe = (\<lambda>w audio. Inr reply),
      audio_service_init = (\<lambda>w. None),
      process_conversation =
        (\<lambda>w user_id messages. Inr \<lparr>mem_context = [], mem_profile = ''{}'', mem_summary = []\<rparr>),
      send_chat = (\<lambda>w user_id content_list type. Inr (Str reply)),
      now = (\<lambda>w. ''2025-01-01T00:00:00''),
      str_dict = (\<lambda>d. ''{}''),
      json_loads = (\<lambda>s. None)\<rparr>"

definition empty_world :: world where
  "empty_world =
     \<lparr>pinecone_index = [], logged = [], completions = [], embedded = [], queries = [],
      remembered = []\<rparr>"

text \<open>
  An environment whose completion model answers a rewrite request (100 tokens) with
  one text and every other request with another.
\<close>

definition rewriting_env :: env where
  "rewriting_env =
     (canned_env ''A fact'')\<lparr>chat_create :=
        (\<lambda>w req. if max_tokens req = 100 then Inr ''Tell me about my sister''
                  else Inr ''A fact'')\<rparr>"

section \<open>Specification-level notions for the effects of a method\<close>

text \<open>A method that returns from every world.\<close>

definition never_raises :: "'a io \<Rightarrow> bool" where
  "never_raises m \<longleftrightarrow> (\<forall>w. \<exists>x w'. m w = (Inr x, w'))"

text \<open>A method that leaves a component of the world as it was.\<close>

definition preserves :: "(world \<Rightarrow> 'b) \<Rightarrow> 'a io \<Rightarrow> bool" where
  "preserves f m \<longleftrightarrow> (\<forall>w. f (snd (m w)) = f w)"

text \<open>A method whose results, when it returns, all satisfy \<open>P\<close>.\<close>

definition yields :: "('a \<Rightarrow> bool) \<Rightarrow> 'a io \<Rightarrow> bool" where
  "yields P m \<longleftrightarrow> (\<forall>w x w'. m w = (Inr x, w') \<longrightarrow> P x)"

text \<open>A method that takes every world to a world related to it by \<open>R\<close>.\<close>

definition keeps :: "(world \<Rightarrow> world \<Rightarrow> bool) \<Rightarrow> 'a io \<Rightarrow> bool" where
  "keeps R m \<longleftrightarrow> (\<forall>w. R w (snd (m w)))"

text \<open>
  A relation on worlds that admits every effect the pipeline can have for the user
  \<open>user_id\<close>: it is reflexive and transitive, and it relates a world to the world after
  a log line, after an embedding request, after a call to the memory service, after a
  completion request for a rewrite (100 tokens), an extraction (200 tokens) or, when
  \<open>voice\<close> holds, a classification (5 tokens), after a query filtered by the user and
  the record type, and after storing a record tagged with the user that is an extracted
  fact or, when \<open>voice\<close> holds, a voice profile.
\<close>

definition footprint :: "(world \<Rightarrow> world \<Rightarrow> bool) \<Rightarrow> string \<Rightarrow> bool \<Rightarrow> bool" where
  "footprint R user_id voice \<longleftrightarrow>
     (\<forall>w. R w w)
   \<and> (\<forall>w w' w''. R w w' \<longrightarrow> R w' w'' \<longrightarrow> R w w'')
   \<and> (\<forall>w s. R w (w\<lparr>logged := logged w @ [s]\<rparr>))
   \<and> (\<forall>w t. R w (w\<lparr>embedded := embedded w @ [t]\<rparr>))
   \<and> (\<forall>w b. R w (w\<lparr>remembered := remembered w @ [b]\<rparr>))
   \<and> (\<forall>w req. max_tokens req = 100 \<or> max_tokens req = 200 \<or> voice \<and> max_tokens req = 5
          \<longrightarrow> R w (w\<lparr>completions := completions w @ [req]\<rparr>))
   \<and> (\<forall>w v k. R w (w\<lparr>queries := queries w @
          [\<lparr>query_vector = v, top_k = k,
            query_filter = [(''user_id'', user_id), (''type'', ''extracted_info'')]\<rparr>]\<rparr>))
   \<and> (\<forall>w i v md. map_of md ''user_id'' = Some user_id
          \<and> (map_of md ''type'' = Some ''extracted_info''
              \<or> voice \<and> map_of md ''type'' = Some ''voice_profile'')
          \<longrightarrow> R w (w\<lparr>pinecone_index := upsert_record (pinecone_index w) (i, v, md)\<rparr>))"

section \<open>Specification-level notions for the paraphrases\<close>


section \<open>Specification-level notions for the voice heuristic\<close>

text \<open>
  \<open>mentions text ws\<close>: some keyword of the family \<open>ws\<close> occurs, as a contiguous block,
  in the lowered \<open>text\<close>. This is what \<open>any(word in lower for word in ws)\<close> tests.
\<close>

definition mentions :: "string \<Rightarrow> string list \<Rightarrow> bool" where
  "mentions text ws \<longleftrightarrow> (\<exists>w \<in> set ws. \<exists>pre post. py_lower text = pre @ w @ post)"

text \<open>The persona name that \<open>process_audio\<close> reports for an emotion analysis.\<close>

definition profile_name_of :: "string \<Rightarrow> string option" where
  "profile_name_of emotion_analysis =
     map_of voice_profile_map (classify_voice_profile emotion_analysis)"

section \<open>Facts about the string functions\<close>

lemma startswith_iff: "startswith s p \<longleftrightarrow> (\<exists>post. s = p @ post)"
  by (induction s p rule: startswith.induct) auto

lemma py_in_iff: "py_in sub s \<longleftrightarrow> (\<exists>pre post. s = pre @ sub @ post)"
proof (induction s)
  case Nil
  then show ?case by auto
next
  case (Cons c cs)
  show ?case
  proof
    assume "py_in sub (c # cs)"
    then consider "startswith (c # cs) sub" | "py_in sub cs" by auto
    then show "\<exists>pre post. c # cs = pre @ sub @ post"
    proof cases
      case 1
      then obtain post where "c # cs = sub @ post" by (auto simp: startswith_iff)
      then have "c # cs = [] @ sub @ post" by simp
      then show ?thesis by blast
    next
      case 2
      with Cons obtain pre post where "cs = pre @ sub @ post" by auto
      then have "c # cs = (c # pre) @ sub @ post" by simp
      then show ?thesis by blast
    qed
  next
    assume "\<exists>pre post. c # cs = pre @ sub @ post"
    then obtain pre post where eq: "c # cs = pre @ sub @ post" by blast
    show "py_in sub (c # cs)"
    proof (cases pre)
      case Nil
      with eq have "startswith (c # cs) sub" by (auto simp: startswith_iff)
      then show ?thesis by simp
    next
      case (Cons d pre')
      with eq have "cs = pre' @ sub @ post" by simp
      with Cons.IH have "py_in sub cs" by blast
      then show ?thesis by simp
    qed
  qed
qed

section \<open>Voice classification from an emotion analysis\<close>

lemma mentions_iff: "mentions text ws \<longleftrightarrow> list_ex (\<lambda>word. py_in word (py_lower text)) ws"
  by (simp add: mentions_def py_in_iff list_ex_iff)

lemma persona_names_distinct:
  "distinct [charming_girlfriend, gentle_girlfriend, tsundere_ceo, righteous_youth]"
  by (simp add: charming_girlfriend_def gentle_girlfriend_def tsundere_ceo_def
      righteous_youth_def)

lemma mentions_lower_nonempty: "mentions e ws \<Longrightarrow> [] \<notin> set ws \<Longrightarrow> e \<noteq> []"
  by (auto simp: mentions_def py_lower_def)

text \<open>
  Claim C8. The keyword families are tried in the order gentle, charming, authoritative:
  an analysis that mentions a gentle keyword gets the gentle persona whatever else it
  mentions; one that mentions no gentle keyword but a charming one gets the charming
  persona; one that mentions neither but an authoritative keyword gets the tsundere CEO;
  an analysis that mentions no keyword, and the empty analysis, get the righteous
  youth. The four persona names are pairwise different and each is the result for a
  literal input.
\<close>

theorem classify_voice_profile_priority:
  "(mentions e [''soft'', ''gentle'', ''caring'', ''tender'']
      \<longrightarrow> profile_name_of e = Some gentle_girlfriend)
   \<and> (\<not> mentions e [''soft'', ''gentle'', ''caring'', ''tender'']
      \<and> mentions e [''joy'', ''playful'', ''friendly'', ''charming'', ''sweet'']
      \<longrightarrow> profile_name_of e = Some charming_girlfriend)
   \<and> (\<not> mentions e [''soft'', ''gentle'', ''caring'', ''tender'']
      \<and> \<not> mentions e [''joy'', ''playful'', ''friendly'', ''charming'', ''sweet'']
      \<and> mentions e [''authoritative'', ''deep'', ''powerful'', ''boss'', ''commanding'']
      \<longrightarrow> profile_name_of e = Some tsundere_ceo)
   \<and> (\<not> mentions e [''soft'', ''gentle'', ''caring'', ''tender'']
      \<and> \<not> mentions e [''joy'', ''playful'', ''friendly'', ''charming'', ''sweet'']
      \<and> \<not> mentions e [''authoritative'', ''deep'', ''powerful'', ''boss'', ''commanding'']
      \<longrightarrow> profile_name_of e = Some righteous_youth)
   \<and> profile_name_of [] = Some righteous_youth
   \<and> profile_name_of ''gentle'' = Some gentle_girlfriend
   \<and> profile_name_of ''charming'' = Some charming_girlfriend
   \<and> profile_name_of ''authoritative'' = Some tsundere_ceo
   \<and> profile_name_of ''neutral'' = Some righteous_youth
   \<and> distinct [charming_girlfriend, gentle_girlfriend, tsundere_ceo, righteous_youth]"
proof -
  have nonempty: "e \<noteq> []" if "mentions e ws" "[] \<notin> set ws" for ws
    using that by (rule mentions_lower_nonempty)
  have g: "profile_name_of e = Some gentle_girlfriend"
    if "mentions e [''soft'', ''gentle'', ''caring'', ''tender'']"
  proof -
    have "e \<noteq> []" using that by (rule nonempty) simp
    with that show ?thesis
      by (simp add: profile_name_of_def classify_voice_profile_def mentions_iff
          voice_profile_map_def)
  qed
  have c: "profile_name_of e = Some charming_girlfriend"
    if "\<not> mentions e [''soft'', ''gentle'', ''caring'', ''tender'']"
      "mentions e [''joy'', ''playful'', ''friendly'', ''charming'', ''sweet'']"
  proof -
    have "e \<noteq> []" using that(2) by (rule nonempty) simp
    with that show ?thesis
      by (simp add: profile_name_of_def classify_voice_profile_def mentions_iff
          voice_profile_map_def)
  qed
  have a: "profile_name_of e = Some tsundere_ceo"
    if "\<not> mentions e [''soft'', ''gentle'', ''caring'', ''tender'']"
      "\<not> mentions e [''joy'', ''playful'', ''friendly'', ''charming'', ''sweet'']"
      "mentions e [''authoritative'', ''deep'', ''powerful'', ''boss'', ''commanding'']"
  proof -
    have "e \<noteq> []" using that(3) by (rule nonempty) simp
    with that show ?thesis
      by (simp add: profile_name_of_def classify_voice_profile_def mentions_iff
          voice_profile_map_def)
  qed
  have d: "profile_name_of e = Some righteous_youth"
    if "\<not> mentions e [''soft'', ''gentle'', ''caring'', ''tender'']"
      "\<not> mentions e [''joy'', ''playful'', ''friendly'', ''charming'', ''sweet'']"
      "\<not> mentions e [''authoritative'', ''deep'', ''powerful'', ''boss'', ''commanding'']"
    using that
    by (simp add: profile_name_of_def classify_voice_profile_def mentions_iff
        voice_profile_map_def)
  have e0: "profile_name_of [] = Some righteous_youth"
    by (simp add: profile_name_of_def classify_voice_profile_def voice_profile_map_def)
  have r1: "profile_name_of ''gentle'' = Some gentle_girlfriend"
    by (simp add: profile_name_of_def classify_voice_profile_def voice_profile_map_def
        py_lower_def lower_char_def)
  have r2: "profile_name_of ''charming'' = Some charming_girlfriend"
    by (simp add: profile_name_of_def classify_voice_profile_def voice_profile_map_def
        py_lower_def lower_char_def)
  have r3: "profile_name_of ''authoritative'' = Some tsundere_ceo"
    by (simp add: profile_name_of_def classify_voice_profile_def voice_profile_map_def
        py_lower_def lower_char_def)
  have r4: "profile_name_of ''neutral'' = Some righteous_youth"
    by (simp add: profile_name_of_def classify_voice_profile_def voice_profile_map_def
        py_lower_def lower_char_def)
  have G: "mentions e [''soft'', ''gentle'', ''caring'', ''tender'']
      \<longrightarrow> profile_name_of e = Some gentle_girlfriend"
    by (rule impI, rule g)
  have C: "\<not> mentions e [''soft'', ''gentle'', ''caring'', ''tender'']
      \<and> mentions e [''joy'', ''playful'', ''friendly'', ''charming'', ''sweet'']
      \<longrightarrow> profile_name_of e = Some charming_girlfriend"
    by (rule impI, elim conjE, rule c)
  have A: "\<not> mentions e [''soft'', ''gentle'', ''caring'', ''tender'']
      \<and> \<not> mentions e [''joy'', ''playful'', ''friendly'', ''charming'', ''sweet'']
      \<and> mentions e [''authoritative'', ''deep'', ''powerful'', ''boss'', ''commanding'']
      \<longrightarrow> profile_name_of e = Some tsundere_ceo"
    by (rule impI, elim conjE, rule a)
  have D: "\<not> mentions e [''soft'', ''gentle'', ''caring'', ''tender'']
      \<and> \<not> mentions e [''joy'', ''playful'', ''friendly'', ''charming'', ''sweet'']
      \<and> \<not> mentions e [''authoritative'', ''deep'', ''powerful'', ''boss'', ''commanding'']
      \<longrightarrow> profile_name_of e = Some righteous_youth"
    by (rule impI, elim conjE, rule d)
  show ?thesis
    by (intro conjI) (rule G C A D e0 r1 r2 r3 r4 persona_names_distinct)+
qed

theorem classify_voice_profile_priority_witness:
  "mentions ''Soft but commanding'' [''soft'', ''gentle'', ''caring'', ''tender'']
   \<and> profile_name_of ''Soft but commanding'' = Some gentle_girlfriend
   \<and> \<not> mentions ''Joyful BOSS'' [''soft'', ''gentle'', ''caring'', ''tender'']
   \<and> mentions ''Joyful BOSS'' [''joy'', ''playful'', ''friendly'', ''charming'', ''sweet'']
   \<and> profile_name_of ''Joyful BOSS'' = Some charming_girlfriend
   \<and> \<not> mentions ''Deep'' [''soft'', ''gentle'', ''caring'', ''tender'']
   \<and> \<not> mentions ''Deep'' [''joy'', ''playful'', ''friendly'', ''charming'', ''sweet'']
   \<and> mentions ''Deep'' [''authoritative'', ''deep'', ''powerful'', ''boss'', ''commanding'']
   \<and> profile_name_of ''Deep'' = Some tsundere_ceo
   \<and> \<not> mentions ''calm'' [''soft'', ''gentle'', ''caring'', ''tender'']
   \<and> \<not> mentions ''calm'' [''joy'', ''playful'', ''friendly'', ''charming'', ''sweet'']
   \<and> \<not> mentions ''calm'' [''authoritative'', ''deep'', ''powerful'', ''boss'', ''commanding'']
   \<and> profile_name_of ''calm'' = Some righteous_youth"
proof -
  have h1: "mentions ''Soft but commanding'' [''soft'', ''gentle'', ''caring'', ''tender'']"
    by (simp add: mentions_iff py_lower_def lower_char_def)
  have h2: "\<not> mentions ''Joyful BOSS'' [''soft'', ''gentle'', ''caring'', ''tender'']
      \<and> mentions ''Joyful BOSS'' [''joy'', ''playful'', ''friendly'', ''charming'', ''sweet'']"
    by (simp add: mentions_iff py_lower_def lower_char_def)
  have h3: "\<not> mentions ''Deep'' [''soft'', ''gentle'', ''caring'', ''tender'']
      \<and> \<not> mentions ''Deep'' [''joy'', ''playful'', ''friendly'', ''charming'', ''sweet'']
      \<and> mentions ''Deep'' [''authoritative'', ''deep'', ''powerful'', ''boss'', ''commanding'']"
    by (simp add: mentions_iff py_lower_def lower_char_def)
  have h4: "\<not> mentions ''calm'' [''soft'', ''gentle'', ''caring'', ''tender'']
      \<and> \<not> mentions ''calm'' [''joy'', ''playful'', ''friendly'', ''charming'', ''sweet'']
      \<and> \<not> mentions ''calm'' [''authoritative'', ''deep'', ''powerful'', ''boss'', ''commanding'']"
    by (simp add: mentions_iff py_lower_def lower_char_def)
  have c1: "profile_name_of ''Soft but commanding'' = Some gentle_girlfriend"
    using classify_voice_profile_priority [of "''Soft but commanding''"] h1 by simp
  have c2: "profile_name_of ''Joyful BOSS'' = Some charming_girlfriend"
    using classify_voice_profile_priority [of "''Joyful BOSS''"] h2 by simp
  have c3: "profile_name_of ''Deep'' = Some tsundere_ceo"
    using classify_voice_profile_priority [of "''Deep''"] h3 by simp
  have c4: "profile_name_of ''calm'' = Some righteous_youth"
    using classify_voice_profile_priority [of "''calm''"] h4 by simp
  from h1 h2 h3 h4 c1 c2 c3 c4 show ?thesis by simp
qed

section \<open>Rank fusion: the accumulated scores\<close>




















text \<open>
  The same input evaluated: \<open>b\<close> scores \<open>1 / 3 + 1 / 2\<close>, \<open>a\<close> scores \<open>1 / 2\<close> and
  \<open>c\<close> scores \<open>1 / 3\<close>; the match kept for \<open>b\<close> is the one of the last list.
\<close>

lemma reciprocal_rank_fusion_example:
  "reciprocal_rank_fusion
     [[\<lparr>match_id = ''a'', score = 9/10, metadata = []\<rparr>, \<lparr>match_id = ''b'', score = 8/10, metadata = []\<rparr>],
      [\<lparr>match_id = ''b'', score = 7/10, metadata = []\<rparr>, \<lparr>match_id = ''c'', score = 6/10, metadata = []\<rparr>]] 2
   = Inr [\<lparr>match_id = ''b'', score = 7/10, metadata = []\<rparr>, \<lparr>match_id = ''a'', score = 9/10, metadata = []\<rparr>]"
  by (simp add: reciprocal_rank_fusion_def rrf_scores_def dict_get_def sorted_ids_def
      id_to_match_def dict_item_def py_take_def)

section \<open>Rank fusion: an id that is first in every list\<close>















section \<open>Query rewriting\<close>

text \<open>
  Claim C4. With an empty history \<open>rephrase_query_with_context\<close> returns the query
  as it is and leaves the world as it is: no request reaches the completion model and
  nothing is logged.
\<close>

theorem rephrase_query_empty_history:
  "rephrase_query_with_context env q [] w = (Inr q, w)
   \<and> completions (snd (rephrase_query_with_context env q [] w)) = completions w"
  by (simp add: rephrase_query_with_context_def returns_def)

section \<open>Fact extraction: the emotional context annotation\<close>
















section \<open>Paraphrases of a query\<close>




section \<open>Methods that never raise\<close>

lemma never_raises_returns: "never_raises (returns x)"
  by (simp add: never_raises_def returns_def)

lemma never_raises_log_line: "never_raises (log_line s)"
  by (simp add: never_raises_def log_line_def)

lemma never_raises_clock: "never_raises (clock env)"
  by (simp add: never_raises_def clock_def)

lemma never_raises_bind:
  assumes "never_raises m" and "\<And>x. never_raises (f x)"
  shows "never_raises (bind m f)"
proof -
  have "\<exists>y w'. bind m f w = (Inr y, w')" for w
  proof -
    from assms(1) obtain x w1 where m: "m w = (Inr x, w1)" unfolding never_raises_def by blast
    from assms(2) [of x] obtain y w2 where "f x w1 = (Inr y, w2)" unfolding never_raises_def by blast
    with m show ?thesis by (simp add: bind_def)
  qed
  then show ?thesis by (simp add: never_raises_def)
qed

lemma never_raises_try_except:
  assumes "\<And>e. never_raises (h e)"
  shows "never_raises (try_except m h)"
proof -
  have "\<exists>y w'. try_except m h w = (Inr y, w')" for w
  proof (cases "m w")
    case (Pair r w1)
    show ?thesis
    proof (cases r)
      case (Inl e)
      from assms [of e] obtain y w2 where "h e w1 = (Inr y, w2)" unfolding never_raises_def by blast
      with Pair Inl show ?thesis by (simp add: try_except_def)
    next
      case (Inr x)
      with Pair show ?thesis by (simp add: try_except_def)
    qed
  qed
  then show ?thesis by (simp add: never_raises_def)
qed

lemma never_raises_handler: "never_raises (bind (log_line s) (\<lambda>_. returns x))"
  by (intro never_raises_bind never_raises_log_line never_raises_returns)

lemma never_raises_add_extracted_info:
  "never_raises (add_extracted_info_to_vector_db env user_id extracted_info timestamp)"
  unfolding add_extracted_info_to_vector_db_def Let_def
  by (intro never_raises_bind never_raises_try_except never_raises_handler)
     (auto intro!: never_raises_bind never_raises_log_line never_raises_returns never_raises_clock
        split: option.splits)

lemma never_raises_add_voice_profile:
  "never_raises (add_voice_profile_to_vector_db env user_id voice_profile_name timestamp)"
  unfolding add_voice_profile_to_vector_db_def Let_def
  by (auto intro!: never_raises_bind never_raises_try_except never_raises_handler
        never_raises_returns never_raises_clock split: option.splits)

lemma never_raises_retrieve_extracted_info:
  "never_raises (retrieve_extracted_info env user_id k)"
  unfolding retrieve_extracted_info_def
  by (intro never_raises_try_except never_raises_handler)

lemma never_raises_build_relevant_context:
  "never_raises (build_relevant_context env user_id current_message)"
  unfolding build_relevant_context_def
  by (intro never_raises_try_except never_raises_handler)

lemma never_raises_retrieve_semantic_context:
  "never_raises (retrieve_semantic_context env user_id current_message)"
  unfolding retrieve_semantic_context_def
  by (intro never_raises_try_except never_raises_handler)

lemma never_raises_rephrase:
  "never_raises (rephrase_query_with_context env query conversation_history)"
  unfolding rephrase_query_with_context_def Let_def
  by (auto intro!: never_raises_try_except never_raises_handler never_raises_returns)

lemma never_raises_classify_from_text:
  "never_raises (classify_voice_profile_from_text env text)"
  unfolding classify_voice_profile_from_text_def
  by (intro never_raises_try_except never_raises_handler)

lemma never_raises_memory_ingestion:
  "never_raises (memory_ingestion env user_id user_message chat_history)"
  unfolding memory_ingestion_def Let_def
  by (intro never_raises_try_except never_raises_handler)

lemma never_raises_audio_branch: "never_raises (audio_branch env user_id content)"
  unfolding audio_branch_def
  by (intro never_raises_try_except never_raises_handler)

lemma never_raises_text_branch: "never_raises (text_branch env user_id user_message)"
  unfolding text_branch_def
  by (intro never_raises_bind never_raises_classify_from_text never_raises_add_voice_profile
      never_raises_returns)


lemma never_raises_extract_key_info:
  assumes "\<And>w req. \<exists>r. chat_create env w req = Inr r"
  shows "never_raises (extract_key_info env text conversation_context)"
proof -
  have "never_raises (chat_completion env req)" for req
    unfolding never_raises_def chat_completion_def using assms by auto
  then show ?thesis
    unfolding extract_key_info_def
    by (intro never_raises_bind never_raises_returns)
qed

lemma never_raises_chat_service:
  assumes "\<And>w u ms t. \<exists>r. send_chat env w u ms t = Inr r"
  shows "never_raises (chat_service env user_id content_list type)"
  unfolding never_raises_def chat_service_def using assms by auto

lemma rag_pipeline_never_raises:
  assumes chat: "\<And>w req. \<exists>r. chat_create env w req = Inr r"
    and send: "\<And>w u ms t. \<exists>r. send_chat env w u ms t = Inr r"
  shows "never_raises (rag_pipeline env user_id user_message chat_history input_type content)"
  unfolding rag_pipeline_def Let_def case_prod_beta
  by (intro never_raises_bind never_raises_memory_ingestion never_raises_rephrase
        never_raises_extract_key_info [OF chat] never_raises_add_extracted_info
        never_raises_build_relevant_context never_raises_retrieve_semantic_context)
     (auto intro!: never_raises_bind never_raises_try_except never_raises_log_line
        never_raises_returns never_raises_audio_branch never_raises_text_branch
        never_raises_chat_service [OF send])

lemma yields_returns: "P x \<Longrightarrow> yields P (returns x)"
  by (simp add: yields_def returns_def)

lemma yields_bind:
  assumes "\<And>x. yields P (f x)"
  shows "yields P (bind m f)"
proof -
  have "P y" if "bind m f w = (Inr y, w')" for w y w'
  proof (cases "m w")
    case (Pair r w1)
    show ?thesis
    proof (cases r)
      case (Inl e)
      with Pair that show ?thesis by (simp add: bind_def)
    next
      case (Inr x)
      with Pair that have "f x w1 = (Inr y, w')" by (simp add: bind_def)
      with assms [of x] show ?thesis unfolding yields_def by blast
    qed
  qed
  then show ?thesis unfolding yields_def by blast
qed

lemma bind_returns: "bind (returns x) f = f x"
  by (simp add: bind_def returns_def)

lemma rag_pipeline_image_yields:
  assumes "input_type \<noteq> ''text''" and "input_type \<noteq> ''audio''"
  shows "yields (\<lambda>(reply, voice_profile_name). voice_profile_name = None)
           (rag_pipeline env user_id user_message chat_history input_type content)"
  unfolding rag_pipeline_def Let_def case_prod_beta
  using assms
  by (auto simp: bind_returns intro!: yields_bind yields_returns)

section \<open>The effects of the pipeline\<close>

lemma keeps_pure: "footprint R u v \<Longrightarrow> keeps R (\<lambda>w. (g w, w))"
  by (simp add: keeps_def footprint_def)

lemma keeps_returns: "footprint R u v \<Longrightarrow> keeps R (returns x)"
  by (simp add: keeps_def footprint_def returns_def)

lemma keeps_lift: "footprint R u v \<Longrightarrow> keeps R (lift r)"
  by (simp add: keeps_def footprint_def lift_def)

lemma keeps_clock: "footprint R u v \<Longrightarrow> keeps R (clock env)"
  by (simp add: keeps_def footprint_def clock_def)

lemma keeps_log_line: "footprint R u v \<Longrightarrow> keeps R (log_line s)"
  by (simp add: keeps_def footprint_def log_line_def)

lemma keeps_get_embedding: "footprint R u v \<Longrightarrow> keeps R (get_embedding env t)"
  by (simp add: keeps_def footprint_def get_embedding_def)

lemma keeps_memory_process: "footprint R u v \<Longrightarrow> keeps R (memory_process env user_id ms)"
  by (simp add: keeps_def footprint_def memory_process_def)

lemma keeps_chat_service: "footprint R u v \<Longrightarrow> keeps R (chat_service env user_id ms t)"
  by (simp add: keeps_def footprint_def chat_service_def)

lemma keeps_chat_completion:
  assumes "footprint R u v"
    and "max_tokens req = 100 \<or> max_tokens req = 200 \<or> v \<and> max_tokens req = 5"
  shows "keeps R (chat_completion env req)"
  using assms unfolding keeps_def footprint_def chat_completion_def by auto

lemma keeps_index_query:
  assumes "footprint R u v"
  shows "keeps R (index_query env \<lparr>query_vector = vec, top_k = k,
            query_filter = [(''user_id'', u), (''type'', ''extracted_info'')]\<rparr>)"
  using assms by (simp add: keeps_def footprint_def index_query_def)

lemma keeps_index_upsert:
  assumes "footprint R u v" and "map_of md ''user_id'' = Some u"
    and "map_of md ''type'' = Some ''extracted_info'' \<or> v \<and> map_of md ''type'' = Some ''voice_profile''"
  shows "keeps R (index_upsert env (i, vec, md))"
proof -
  have "R w (snd (index_upsert env (i, vec, md) w))" for w
  proof (cases "upsert_fault env w (i, vec, md)")
    case None
    with assms show ?thesis by (simp add: index_upsert_def footprint_def)
  next
    case (Some e)
    with assms(1) show ?thesis by (simp add: index_upsert_def footprint_def)
  qed
  then show ?thesis by (simp add: keeps_def)
qed

lemma keeps_bind:
  assumes "footprint R u v" and "keeps R m" and "\<And>x. keeps R (f x)"
  shows "keeps R (bind m f)"
proof -
  from assms(1) have trans: "\<And>w w' w''. R w w' \<Longrightarrow> R w' w'' \<Longrightarrow> R w w''"
    unfolding footprint_def by blast
  have "R w (snd (bind m f w))" for w
  proof (cases "m w")
    case (Pair r w1)
    from assms(2) Pair have 1: "R w w1" unfolding keeps_def by (metis snd_conv)
    show ?thesis
    proof (cases r)
      case (Inl e)
      with Pair 1 show ?thesis by (simp add: bind_def)
    next
      case (Inr x)
      from assms(3) [of x] have "R w1 (snd (f x w1))" unfolding keeps_def by blast
      with 1 have "R w (snd (f x w1))" by (rule trans)
      with Pair Inr show ?thesis by (simp add: bind_def)
    qed
  qed
  then show ?thesis by (simp add: keeps_def)
qed

lemma keeps_try_except:
  assumes "footprint R u v" and "keeps R m" and "\<And>e. keeps R (h e)"
  shows "keeps R (try_except m h)"
proof -
  from assms(1) have trans: "\<And>w w' w''. R w w' \<Longrightarrow> R w' w'' \<Longrightarrow> R w w''"
    unfolding footprint_def by blast
  have "R w (snd (try_except m h w))" for w
  proof (cases "m w")
    case (Pair r w1)
    from assms(2) Pair have 1: "R w w1" unfolding keeps_def by (metis snd_conv)
    show ?thesis
    proof (cases r)
      case (Inr x)
      with Pair 1 show ?thesis by (simp add: try_except_def)
    next
      case (Inl e)
      from assms(3) [of e] have "R w1 (snd (h e w1))" unfolding keeps_def by blast
      with 1 have "R w (snd (h e w1))" by (rule trans)
      with Pair Inl show ?thesis by (simp add: try_except_def)
    qed
  qed
  then show ?thesis by (simp add: keeps_def)
qed

lemmas keeps_intros =
  keeps_bind keeps_try_except keeps_returns keeps_lift keeps_clock keeps_log_line
  keeps_get_embedding keeps_memory_process keeps_chat_service keeps_pure

lemma keeps_extracted_result:
  assumes "footprint R u v"
  shows "keeps R (extracted_result env m)"
  unfolding extracted_result_def Let_def
  using assms
  by (auto intro!: keeps_intros [of R u v] split: option.splits pyval.splits)

lemma keeps_extracted_results:
  assumes "footprint R u v"
  shows "keeps R (extracted_results env ms)"
  using assms
  by (induction ms) (auto intro!: keeps_intros [of R u v] keeps_extracted_result)

lemma keeps_add_extracted_info:
  assumes "footprint R u v"
  shows "keeps R (add_extracted_info_to_vector_db env u extracted_info timestamp)"
  unfolding add_extracted_info_to_vector_db_def Let_def
  using assms
  by (auto intro!: keeps_intros [of R u v] keeps_index_upsert [of R u v] split: option.splits)

lemma keeps_add_voice_profile:
  assumes "footprint R u True"
  shows "keeps R (add_voice_profile_to_vector_db env u name timestamp)"
  unfolding add_voice_profile_to_vector_db_def Let_def
  using assms
  by (auto intro!: keeps_intros [of R u True] keeps_index_upsert [of R u True]
      split: option.splits)

lemma keeps_retrieve_extracted_info:
  assumes "footprint R u v"
  shows "keeps R (retrieve_extracted_info env u k)"
  unfolding retrieve_extracted_info_def Let_def
  using assms
  by (auto intro!: keeps_intros [of R u v] keeps_index_query [of R u v]
      keeps_extracted_results [of R u v])

lemma keeps_build_relevant_context:
  assumes "footprint R u v"
  shows "keeps R (build_relevant_context env u current_message)"
  unfolding build_relevant_context_def Let_def
  using assms
  by (auto intro!: keeps_intros [of R u v] keeps_retrieve_extracted_info [of R u v])

lemma keeps_retrieve_semantic_context:
  assumes "footprint R u v"
  shows "keeps R (retrieve_semantic_context env u current_message)"
  unfolding retrieve_semantic_context_def Let_def
  using assms
  by (auto intro!: keeps_intros [of R u v] keeps_index_query [of R u v])

lemma keeps_rephrase:
  assumes "footprint R u v"
  shows "keeps R (rephrase_query_with_context env query conversation_history)"
  unfolding rephrase_query_with_context_def Let_def
  using assms
  by (auto intro!: keeps_intros [of R u v] keeps_chat_completion [of R u v])

lemma keeps_extract_key_info:
  assumes "footprint R u v"
  shows "keeps R (extract_key_info env text conversation_context)"
  unfolding extract_key_info_def
  using assms
  by (auto intro!: keeps_intros [of R u v] keeps_chat_completion [of R u v])

lemma keeps_classify_from_text:
  assumes "footprint R u True"
  shows "keeps R (classify_voice_profile_from_text env text)"
  unfolding classify_voice_profile_from_text_def
  using assms
  by (auto intro!: keeps_intros [of R u True] keeps_chat_completion [of R u True])

lemma keeps_process_audio:
  assumes "footprint R u v"
  shows "keeps R (process_audio env audio_data)"
  unfolding process_audio_def transcribe_audio_def analyze_emotion_def Let_def
  using assms
  by (auto intro!: keeps_intros [of R u v] split: option.splits)

lemma keeps_memory_ingestion:
  assumes "footprint R u v"
  shows "keeps R (memory_ingestion env user_id user_message chat_history)"
  unfolding memory_ingestion_def Let_def
  using assms
  by (auto intro!: keeps_intros [of R u v])

lemma keeps_audio_branch:
  assumes "footprint R u True"
  shows "keeps R (audio_branch env u content)"
  unfolding audio_branch_def Let_def
  using assms
  by (auto intro!: keeps_intros [of R u True] keeps_process_audio [of R u True]
      keeps_add_voice_profile)

lemma keeps_text_branch:
  assumes "footprint R u True"
  shows "keeps R (text_branch env u user_message)"
  unfolding text_branch_def
  using assms
  by (auto intro!: keeps_intros [of R u True] keeps_classify_from_text [of R u]
      keeps_add_voice_profile)

lemma keeps_rag_pipeline:
  assumes "footprint R u (input_type = ''text'' \<or> input_type = ''audio'')"
  shows "keeps R (rag_pipeline env u user_message chat_history input_type content)"
proof -
  let ?v = "input_type = ''text'' \<or> input_type = ''audio''"
  have modality: "keeps R (if input_type = ''audio'' \<and> truthy content then audio_branch env u content
           else if input_type = ''text'' then text_branch env u user_message
           else returns (user_message, None, []))"
    using assms
    by (auto intro!: keeps_audio_branch keeps_text_branch keeps_returns [of R u ?v])
  show ?thesis
    unfolding rag_pipeline_def Let_def case_prod_beta
    using assms modality
    by (auto intro!: keeps_intros [of R u ?v] keeps_memory_ingestion [of R u ?v]
        keeps_rephrase [of R u ?v] keeps_extract_key_info [of R u ?v]
        keeps_add_extracted_info [of R u ?v] keeps_build_relevant_context [of R u ?v]
        keeps_retrieve_semantic_context [of R u ?v])
qed

section \<open>The pipeline on an image\<close>

lemma set_upsert_record: "set (upsert_record idx r) \<subseteq> insert r (set idx)"
  by (induction idx r rule: upsert_record.induct) auto

lemma in_upsert_record: "r \<in> set (upsert_record idx x) \<Longrightarrow> r = x \<or> r \<in> set idx"
  using set_upsert_record [of idx x] by auto

lemma footprint_no_voice:
  "footprint
     (\<lambda>w w'. (\<forall>req \<in> set (completions w'). req \<in> set (completions w)
                  \<or> max_tokens req = 100 \<or> max_tokens req = 200)
            \<and> (\<forall>r \<in> set (pinecone_index w'). r \<in> set (pinecone_index w)
                  \<or> map_of (snd (snd r)) ''type'' = Some ''extracted_info''))
     user_id False"
  unfolding footprint_def
  by (auto dest!: in_upsert_record)

text \<open>
  Claim C10. When \<open>input_type\<close> is neither \<open>text\<close> nor \<open>audio\<close>, every pair that
  \<open>rag_pipeline\<close> returns has \<open>None\<close> as its voice profile name; the pipeline does
  return such a pair whenever the completion model and the chat service answer; and
  the classification is skipped: every completion request the run sends is a rewrite
  (100 tokens) or an extraction (200 tokens), never the classifier's request
  (5 tokens), and every record it stores is an extracted fact, never a voice profile.
\<close>

theorem rag_pipeline_image_voice_profile:
  assumes "input_type \<noteq> ''text''" and "input_type \<noteq> ''audio''"
  shows "(\<forall>reply voice_profile_name w'.
            rag_pipeline env user_id user_message chat_history input_type content w
              = (Inr (reply, voice_profile_name), w')
            \<longrightarrow> voice_profile_name = None)
       \<and> ((\<forall>w req. \<exists>r. chat_create env w req = Inr r)
           \<and> (\<forall>w u ms t. \<exists>r. send_chat env w u ms t = Inr r)
           \<longrightarrow> (\<exists>reply w'.
                 rag_pipeline env user_id user_message chat_history input_type content w
                   = (Inr (reply, None), w')))
       \<and> (\<forall>req \<in> set (completions
                   (snd (rag_pipeline env user_id user_message chat_history input_type content w))).
             req \<in> set (completions w) \<or> max_tokens req = 100 \<or> max_tokens req = 200)
       \<and> (\<forall>r \<in> set (pinecone_index
                   (snd (rag_pipeline env user_id user_message chat_history input_type content w))).
             r \<in> set (pinecone_index w) \<or> map_of (snd (snd r)) ''type'' = Some ''extracted_info'')"
proof -
  let ?run = "rag_pipeline env user_id user_message chat_history input_type content"
  have A: "\<forall>reply voice_profile_name w'.
            ?run w = (Inr (reply, voice_profile_name), w') \<longrightarrow> voice_profile_name = None"
    using rag_pipeline_image_yields [OF assms, of env user_id user_message chat_history content]
    unfolding yields_def by auto
  have B: "(\<forall>w req. \<exists>r. chat_create env w req = Inr r)
           \<and> (\<forall>w u ms t. \<exists>r. send_chat env w u ms t = Inr r)
           \<longrightarrow> (\<exists>reply w'. ?run w = (Inr (reply, None), w'))"
  proof
    assume h: "(\<forall>w req. \<exists>r. chat_create env w req = Inr r)
           \<and> (\<forall>w u ms t. \<exists>r. send_chat env w u ms t = Inr r)"
    then have "never_raises ?run" by (intro rag_pipeline_never_raises) blast+
    then obtain x w' where x: "?run w = (Inr x, w')" unfolding never_raises_def by blast
    obtain reply vp where "x = (reply, vp)" by (cases x)
    with x A show "\<exists>reply w'. ?run w = (Inr (reply, None), w')" by blast
  qed
  from assms have "(input_type = ''text'' \<or> input_type = ''audio'') = False" by simp
  with footprint_no_voice [of user_id]
  have "keeps
     (\<lambda>w w'. (\<forall>req \<in> set (completions w'). req \<in> set (completions w)
                  \<or> max_tokens req = 100 \<or> max_tokens req = 200)
            \<and> (\<forall>r \<in> set (pinecone_index w'). r \<in> set (pinecone_index w)
                  \<or> map_of (snd (snd r)) ''type'' = Some ''extracted_info'')) ?run"
    by (intro keeps_rag_pipeline) simp
  then have CD: "(\<forall>req \<in> set (completions (snd (?run w))).
             req \<in> set (completions w) \<or> max_tokens req = 100 \<or> max_tokens req = 200)
       \<and> (\<forall>r \<in> set (pinecone_index (snd (?run w))).
             r \<in> set (pinecone_index w) \<or> map_of (snd (snd r)) ''type'' = Some ''extracted_info'')"
    unfolding keeps_def by blast
  from A B CD show ?thesis by (intro conjI) blast+
qed

theorem rag_pipeline_image_voice_profile_witness:
  "''image'' \<noteq> ''text'' \<and> ''image'' \<noteq> ''audio''
   \<and> (\<forall>w req. \<exists>r. chat_create (canned_env ''ok'') w req = Inr r)
   \<and> (\<forall>w u ms t. \<exists>r. send_chat (canned_env ''ok'') w u ms t = Inr r)
   \<and> (\<exists>reply w'.
         rag_pipeline (canned_env ''ok'') ''u1'' ''look at this'' [] ''image''
           (Obj [(''type'', ''image_base64''), (''data'', ''abc'')]) empty_world
         = (Inr (reply, None), w'))"
proof -
  have h1: "''image'' \<noteq> ''text''" and h2: "''image'' \<noteq> ''audio''" by simp_all
  have h3: "(\<forall>w req. \<exists>r. chat_create (canned_env ''ok'') w req = Inr r)
      \<and> (\<forall>w u ms t. \<exists>r. send_chat (canned_env ''ok'') w u ms t = Inr r)"
    by (simp add: canned_env_def)
  from rag_pipeline_image_voice_profile [OF h1 h2, of "canned_env ''ok''" "''u1''"
      "''look at this''" "[]" "Obj [(''type'', ''image_base64''), (''data'', ''abc'')]" empty_world] h3
  have "\<exists>reply w'.
         rag_pipeline (canned_env ''ok'') ''u1'' ''look at this'' [] ''image''
           (Obj [(''type'', ''image_base64''), (''data'', ''abc'')]) empty_world
         = (Inr (reply, None), w')"
    by blast
  with h1 h2 h3 show ?thesis by blast
qed

lemma rag_pipeline_image_example:
  "fst (rag_pipeline (canned_env ''ok'') ''u1'' ''look at this'' [] ''image''
          (Obj [(''type'', ''image_base64''), (''data'', ''abc'')]) empty_world)
   = Inr (Str ''ok'', None)"
  by code_simp


section \<open>Persisting a fact\<close>




section \<open>The texts embedded for retrieval\<close>

lemma preserves_returns: "preserves f (returns x)"
  by (simp add: preserves_def returns_def)

lemma preserves_lift: "preserves f (lift r)"
  by (simp add: preserves_def lift_def)

lemma preserves_bind:
  assumes "preserves f m" and "\<And>x. preserves f (g x)"
  shows "preserves f (bind m g)"
proof -
  have "f (snd (bind m g w)) = f w" for w
  proof (cases "m w")
    case (Pair r w1)
    from assms(1) Pair have 1: "f w1 = f w" unfolding preserves_def by (metis snd_conv)
    show ?thesis
    proof (cases r)
      case (Inl e)
      with Pair 1 show ?thesis by (simp add: bind_def)
    next
      case (Inr x)
      from assms(2) [of x] have "f (snd (g x w1)) = f w1" unfolding preserves_def by blast
      with Pair Inr 1 show ?thesis by (simp add: bind_def)
    qed
  qed
  then show ?thesis by (simp add: preserves_def)
qed

lemma preserves_try_except:
  assumes "preserves f m" and "\<And>e. preserves f (h e)"
  shows "preserves f (try_except m h)"
proof -
  have "f (snd (try_except m h w)) = f w" for w
  proof (cases "m w")
    case (Pair r w1)
    from assms(1) Pair have 1: "f w1 = f w" unfolding preserves_def by (metis snd_conv)
    show ?thesis
    proof (cases r)
      case (Inr x)
      with Pair 1 show ?thesis by (simp add: try_except_def)
    next
      case (Inl e)
      from assms(2) [of e] have "f (snd (h e w1)) = f w1" unfolding preserves_def by blast
      with Pair Inl 1 show ?thesis by (simp add: try_except_def)
    qed
  qed
  then show ?thesis by (simp add: preserves_def)
qed

lemma preserves_embedded_log_line: "preserves embedded (log_line s)"
  by (simp add: preserves_def log_line_def)

lemma preserves_embedded_index_query: "preserves embedded (index_query env req)"
  by (simp add: preserves_def index_query_def)

lemma preserves_embedded_extracted_result: "preserves embedded (extracted_result env m)"
  unfolding extracted_result_def Let_def
  by (auto intro!: preserves_bind preserves_returns preserves_lift preserves_embedded_log_line
      split: option.splits pyval.splits)

lemma preserves_embedded_extracted_results: "preserves embedded (extracted_results env ms)"
  by (induction ms)
     (auto intro!: preserves_bind preserves_returns preserves_embedded_extracted_result)

lemma embedded_after_embedding:
  assumes "\<And>x. preserves embedded (g x)" and "\<And>e. preserves embedded (h e)"
  shows "embedded (snd (try_except (bind (get_embedding env t) g) h w)) = embedded w @ [t]"
proof (cases "embeddings_create env w t")
  case (Inl e)
  with assms(2) [of e] show ?thesis
    unfolding preserves_def by (simp add: try_except_def bind_def get_embedding_def)
next
  case (Inr v)
  let ?w1 = "w\<lparr>embedded := embedded w @ [t]\<rparr>"
  from assms(1) [of v] have g: "embedded (snd (g v ?w1)) = embedded ?w1"
    unfolding preserves_def by blast
  show ?thesis
  proof (cases "g v ?w1")
    case (Pair r w2)
    with g have w2: "embedded w2 = embedded w @ [t]" by simp
    show ?thesis
    proof (cases r)
      case (Inl e)
      from assms(2) [of e] have "embedded (snd (h e w2)) = embedded w2"
        unfolding preserves_def by blast
      with Pair Inl Inr w2 show ?thesis
        by (simp add: try_except_def bind_def get_embedding_def)
    next
      case (Inr x)
      with Pair \<open>embeddings_create env w t = Inr v\<close> w2 show ?thesis
        by (simp add: try_except_def bind_def get_embedding_def)
    qed
  qed
qed

lemma embedded_retrieve_extracted_info:
  "embedded (snd (retrieve_extracted_info env user_id k w))
     = embedded w @ [''user '' @ user_id @ '' extracted info'']"
  unfolding retrieve_extracted_info_def Let_def
  by (rule embedded_after_embedding)
     (auto intro!: preserves_bind preserves_returns preserves_lift preserves_embedded_log_line
        preserves_embedded_index_query preserves_embedded_extracted_results)

lemma embedded_retrieve_semantic_context:
  "embedded (snd (retrieve_semantic_context env user_id current_message w))
     = embedded w @ [current_message]"
  unfolding retrieve_semantic_context_def Let_def
  by (rule embedded_after_embedding)
     (auto intro!: preserves_bind preserves_returns preserves_embedded_log_line
        preserves_embedded_index_query)

lemma embedded_build_relevant_context:
  "embedded (snd (build_relevant_context env user_id current_message w))
     = embedded w @ [''user '' @ user_id @ '' extracted info'']"
proof -
  let ?m = "retrieve_extracted_info env user_id 5"
  obtain r w1 where m: "?m w = (r, w1)" by (cases "?m w")
  then have w1: "embedded w1 = embedded w @ [''user '' @ user_id @ '' extracted info'']"
    using embedded_retrieve_extracted_info [of env user_id 5 w] by simp
  from never_raises_retrieve_extracted_info [of env user_id 5] m
  obtain infos where r: "r = Inr infos" unfolding never_raises_def by (metis fst_conv)
  show ?thesis
    unfolding build_relevant_context_def Let_def
    using m r w1 by (simp add: try_except_def bind_def returns_def)
qed

text \<open>
  Claim C5, what the code does instead. \<open>_build_relevant_context\<close> does not use its
  argument \<open>current_message\<close>: the only text it has embedded for its query is
  \<open>user {user_id} extracted info\<close>, whatever the rewritten query is, while
  \<open>_retrieve_semantic_context\<close> embeds the text it is given. In a run of the pipeline in
  which the rewrite step turns \<open>and her?\<close> into \<open>Tell me about my sister\<close>, the texts
  embedded are, in order, the voice profile, the extracted fact, the fixed text of the
  relevant-fact retrieval, and the rewritten query for the semantic retrieval.
\<close>

theorem relevant_context_ignores_rewritten_query:
  "embedded (snd (build_relevant_context env user_id current_message w))
     = embedded w @ [''user '' @ user_id @ '' extracted info'']
   \<and> build_relevant_context env user_id current_message
     = build_relevant_context env user_id other_message
   \<and> embedded (snd (retrieve_semantic_context env user_id current_message w))
     = embedded w @ [current_message]
   \<and> embedded (snd (rag_pipeline rewriting_env ''u1'' ''and her?''
        [[(''role'', Str ''user''), (''content'', Str ''I saw my sister'')],
         [(''role'', Str ''assistant''), (''content'', Str ''Nice'')]] ''text'' PyNone empty_world))
     = [''voice_profile::'' @ righteous_youth, ''A fact'', ''user u1 extracted info'',
        ''Tell me about my sister'']"
proof -
  have 1: "build_relevant_context env user_id current_message
     = build_relevant_context env user_id other_message"
    by (simp add: build_relevant_context_def)
  have 2: "embedded (snd (rag_pipeline rewriting_env ''u1'' ''and her?''
        [[(''role'', Str ''user''), (''content'', Str ''I saw my sister'')],
         [(''role'', Str ''assistant''), (''content'', Str ''Nice'')]] ''text'' PyNone empty_world))
     = [''voice_profile::'' @ righteous_youth, ''A fact'', ''user u1 extracted info'',
        ''Tell me about my sister'']"
    by code_simp
  from embedded_build_relevant_context embedded_retrieve_semantic_context 1 2
  show ?thesis by (intro conjI)
qed


section \<open>Scoping by user\<close>

lemma footprint_weaken: "footprint R u True \<Longrightarrow> footprint R u v"
  unfolding footprint_def by blast

lemma footprint_user_scoped:
  "footprint
     (\<lambda>w w'. (\<forall>req \<in> set (queries w'). req \<in> set (queries w)
                  \<or> map_of (query_filter req) ''user_id'' = Some user_id)
            \<and> (\<forall>r \<in> set (pinecone_index w'). r \<in> set (pinecone_index w)
                  \<or> map_of (snd (snd r)) ''user_id'' = Some user_id))
     user_id True"
proof -
  define R :: "world \<Rightarrow> world \<Rightarrow> bool" where "R = (\<lambda>w w'. (\<forall>req \<in> set (queries w'). req \<in> set (queries w)
                  \<or> map_of (query_filter req) ''user_id'' = Some user_id)
            \<and> (\<forall>r \<in> set (pinecone_index w'). r \<in> set (pinecone_index w)
                  \<or> map_of (snd (snd r)) ''user_id'' = Some user_id))"
  have refl: "R w w" for w by (simp add: R_def)
  have trans: "R w w''" if "R w w'" "R w' w''" for w w' w''
    using that unfolding R_def by blast
  have logs: "R w (w\<lparr>logged := logged w @ [s]\<rparr>)" for w s by (simp add: R_def)
  have embs: "R w (w\<lparr>embedded := embedded w @ [t]\<rparr>)" for w t by (simp add: R_def)
  have mems: "R w (w\<lparr>remembered := remembered w @ [b]\<rparr>)" for w b by (simp add: R_def)
  have comps: "R w (w\<lparr>completions := completions w @ [req]\<rparr>)" for w req by (simp add: R_def)
  have qrys: "R w (w\<lparr>queries := queries w @
          [\<lparr>query_vector = v, top_k = k,
            query_filter = [(''user_id'', user_id), (''type'', ''extracted_info'')]\<rparr>]\<rparr>)" for w v k
    by (simp add: R_def)
  have ups: "R w (w\<lparr>pinecone_index := upsert_record (pinecone_index w) (i, v, md)\<rparr>)"
    if "map_of md ''user_id'' = Some user_id" for w i v md
  proof -
    have "r \<in> set (pinecone_index w) \<or> map_of (snd (snd r)) ''user_id'' = Some user_id"
      if "r \<in> set (upsert_record (pinecone_index w) (i, v, md))" for r
      using in_upsert_record [OF that] \<open>map_of md ''user_id'' = Some user_id\<close> by auto
    then show ?thesis by (simp add: R_def)
  qed
  have "footprint R user_id True"
    unfolding footprint_def
    using refl trans logs embs mems comps qrys ups by blast
  then show ?thesis by (simp only: R_def)
qed

text \<open>
  Whatever the modality and whatever the collaborators do, each query that
  \<open>rag_pipeline\<close> issues carries the caller's \<open>user_id\<close> in its filter, and each record it
  stores carries it in its metadata.
\<close>

lemma rag_pipeline_user_scoped:
  "(\<forall>req \<in> set (queries (snd (rag_pipeline env user_id user_message chat_history input_type content w))).
      req \<in> set (queries w) \<or> map_of (query_filter req) ''user_id'' = Some user_id)
   \<and> (\<forall>r \<in> set (pinecone_index (snd (rag_pipeline env user_id user_message chat_history input_type content w))).
      r \<in> set (pinecone_index w) \<or> map_of (snd (snd r)) ''user_id'' = Some user_id)"
proof -
  have "keeps
     (\<lambda>w w'. (\<forall>req \<in> set (queries w'). req \<in> set (queries w)
                  \<or> map_of (query_filter req) ''user_id'' = Some user_id)
            \<and> (\<forall>r \<in> set (pinecone_index w'). r \<in> set (pinecone_index w)
                  \<or> map_of (snd (snd r)) ''user_id'' = Some user_id))
     (rag_pipeline env user_id user_message chat_history input_type content)"
    by (rule keeps_rag_pipeline, rule footprint_weaken, rule footprint_user_scoped)
  then show ?thesis unfolding keeps_def by blast
qed

text \<open>
  The index answers a query only with records that it holds and whose metadata agree
  with the filter; so a query filtered by one user's id returns no record tagged with
  another's.
\<close>

lemma in_py_take: "x \<in> set (py_take n xs) \<Longrightarrow> x \<in> set xs"
  by (auto simp: py_take_def dest: in_set_takeD split: if_splits)

lemma index_matches_filtered:
  assumes "m \<in> set (index_matches env w req)"
  shows "filter_matches (query_filter req) (metadata m)
       \<and> (\<exists>v. (match_id m, v, metadata m) \<in> set (pinecone_index w))"
proof -
  from assms have "m \<in> set (map (\<lambda>(i, v, md).
        \<lparr>match_id = i, score = similarity env (query_vector req) v, metadata = md\<rparr>)
      (filter (\<lambda>(i, v, md). filter_matches (query_filter req) md) (pinecone_index w)))"
    unfolding index_matches_def by (auto dest!: in_py_take)
  then show ?thesis by auto
qed

lemma filter_matches_key:
  assumes "filter_matches flt md" and "map_of flt key = Some v"
  shows "map_of md key = Some v"
proof -
  from assms(2) have "(key, v) \<in> set flt" by (rule map_of_SomeD)
  with assms(1) show ?thesis by (auto simp: filter_matches_def list_all_iff)
qed

lemma index_matches_user_scoped:
  assumes "m \<in> set (index_matches env w req)"
    and "map_of (query_filter req) ''user_id'' = Some user_id"
  shows "map_of (metadata m) ''user_id'' = Some user_id"
  using index_matches_filtered [OF assms(1)] assms(2) by (auto intro: filter_matches_key)


end
